theory Spec2Isabelle
  imports Main "HOL-Library.Word"
begin

section \<open>The custodial HTTP transport of aries-cloudagent-python\<close>

text \<open>
  A shallow embedding of \<^verbatim>\<open>aries_cloudagent/transport/inbound/http_custodial.py\<close>:
  the class \<^verbatim>\<open>CustodialHttpTransport\<close> with its methods \<^verbatim>\<open>make_application\<close>,
  \<^verbatim>\<open>start\<close> and \<^verbatim>\<open>inbound_message_handler\<close>.

  The handler is a straight-line coroutine that talks to objects defined elsewhere
  (the aiohttp request, the inbound session, the injection context, the wallet handler).
  Their answers are parameters of the model (the record \<open>env\<close>); their effects that the
  handler can observe are written on an explicit state: a store of context objects
  addressed by reference, the session object, and the sequence of calls the handler made.
  Every awaited call is sequential here: one handler run is one task.
\<close>

subsection \<open>Python values\<close>

type_synonym bytes = "8 word list"

text \<open>A value of Python type \<^verbatim>\<open>Union[str, bytes]\<close>: a request body, a response payload.\<close>

datatype payload = Str string | Bytes bytes

text \<open>Python truth value of a \<^verbatim>\<open>str\<close> or \<^verbatim>\<open>bytes\<close> object: false exactly when empty.\<close>

fun truthy :: "payload \<Rightarrow> bool" where
  "truthy (Str t) = (t \<noteq> [])"
| "truthy (Bytes b) = (b \<noteq> [])"

text \<open>
  Exceptions that reach the transport from Python itself or from the objects it calls.
  A constructor stands for the class and its subclasses (\<^verbatim>\<open>except OSError\<close> and
  \<^verbatim>\<open>except MessageParseError\<close> catch subclasses too). \<open>TenantResolutionError\<close>
  stands for what the wallet handler raises when it finds no wallet for a message or
  cannot open it; \<open>HTTPException\<close> for an aiohttp HTTP exception raised by a callee, by
  its status code (413 when the body is larger than \<^verbatim>\<open>client_max_size\<close>);
  \<open>OtherError\<close> for any other exception, by its name.
\<close>

datatype exc =
    MessageParseError
  | TenantResolutionError
  | InjectorError
  | IndexError
  | OSError
  | HTTPException nat
  | OtherError string

text \<open>
  What leaves a method of the transport as an exception: the two exceptions the file
  raises itself, or one of the above passing through uncaught.
\<close>

datatype raised =
    HTTPBadRequest
  | InboundTransportSetupError string int
  | Uncaught exc

text \<open>
  \<^verbatim>\<open>str.lower()\<close> on the ASCII range; other characters are kept. No character outside
  ASCII has a lower case that is a letter of \<^verbatim>\<open>application/json\<close>, the only string a
  lowered string is compared with here.
\<close>

definition char_lower :: "char \<Rightarrow> char" where
  "char_lower c =
     (case map_of (zip ''ABCDEFGHIJKLMNOPQRSTUVWXYZ'' ''abcdefghijklmnopqrstuvwxyz'') c of
        None \<Rightarrow> c
      | Some l \<Rightarrow> l)"

definition str_lower :: "string \<Rightarrow> string" where
  "str_lower s = map char_lower s"

text \<open>\<^verbatim>\<open>s.split(sep, 1)\<close>: at most one split, at the first occurrence of the separator.\<close>

definition split_1 :: "char \<Rightarrow> string \<Rightarrow> string list" where
  "split_1 sep s =
     (case dropWhile (\<lambda>c. c \<noteq> sep) s of
        [] \<Rightarrow> [s]
      | _ # rest \<Rightarrow> [takeWhile (\<lambda>c. c \<noteq> sep) s, rest])"

text \<open>\<^verbatim>\<open>xs[0]\<close>: raises \<^verbatim>\<open>IndexError\<close> on an empty sequence.\<close>

fun index_0 :: "'a list \<Rightarrow> exc + 'a" where
  "index_0 [] = Inl IndexError"
| "index_0 (x # _) = Inr x"

subsection \<open>The aiohttp request and response\<close>

text \<open>
  The request object. \<open>request_text\<close> and \<open>request_read\<close> are what
  \<^verbatim>\<open>await request.text()\<close> and \<^verbatim>\<open>await request.read()\<close> give: the body as a string
  or as bytes, or the exception they raise (the body cannot be decoded, or it is larger
  than the application allows).
\<close>

record request =
  request_headers :: "(string \<times> string) list"
  request_text :: "exc + string"
  request_read :: "exc + bytes"
  request_host :: string
  request_remote :: "string option"

text \<open>
  \<^verbatim>\<open>request.headers.get(key, default)\<close>: the headers are a case-insensitive multi-dict,
  \<^verbatim>\<open>get\<close> returns the first value stored under the key.
\<close>

definition headers_get :: "(string \<times> string) list \<Rightarrow> string \<Rightarrow> string \<Rightarrow> string" where
  "headers_get hs key dflt =
     (case find (\<lambda>kv. str_lower (fst kv) = str_lower key) hs of
        None \<Rightarrow> dflt
      | Some kv \<Rightarrow> snd kv)"

text \<open>
  \<^verbatim>\<open>web.Response(body=..., text=..., status=..., headers=...)\<close>, one field for each
  keyword argument the file uses.
\<close>

record response =
  status :: nat
  resp_body :: "bytes option"
  resp_text :: "string option"
  resp_headers :: "(string \<times> string) list"

subsection \<open>Contexts, sessions and the observable state\<close>

type_synonym ctx_ref = nat

text \<open>
  An injection context object: its settings (only list-valued settings are read here)
  and the wallet instance bound to it.
\<close>

record injection_context =
  settings :: "(string \<times> string list) list"
  wallet_instance :: "string option"

text \<open>\<^verbatim>\<open>context.settings.get_value(name)\<close>: the stored value, or \<^verbatim>\<open>None\<close>.\<close>

definition get_value :: "injection_context \<Rightarrow> string \<Rightarrow> string list option" where
  "get_value c name = map_of (settings c) name"

record message_receipt =
  direct_response_requested :: bool

record inbound_message =
  receipt :: message_receipt

record session =
  context_ref :: ctx_ref
  can_respond :: bool
  accept_undelivered :: bool
  client_info :: "string \<times> string option"
  response_buffer :: "payload option"
  closed :: bool

text \<open>The calls the handler makes on other objects, in the order it makes them.\<close>

datatype event =
    ReadText
  | ReadBytes
  | CreateSession
  | Inject ctx_ref
  | GetWalletByMsg payload
  | ContextCopy ctx_ref ctx_ref
  | SetInstance string ctx_ref
  | AEnter
  | Receive payload ctx_ref
  | WaitResponse
  | ClearResponse
  | AExit

text \<open>
  The part of the process the handler runs in: the store of context objects, the next
  unused reference, and the calls made so far.
\<close>

record world =
  w_heap :: "ctx_ref \<Rightarrow> injection_context"
  w_next_ref :: ctx_ref
  w_trace :: "event list"

record state =
  heap :: "ctx_ref \<Rightarrow> injection_context"
  next_ref :: ctx_ref
  trace :: "event list"
  sess :: session

definition log :: "event \<Rightarrow> state \<Rightarrow> state" where
  "log e s = s\<lparr>trace := trace s @ [e]\<rparr>"

definition w_log :: "event \<Rightarrow> world \<Rightarrow> world" where
  "w_log e w = w\<lparr>w_trace := w_trace w @ [e]\<rparr>"

text \<open>The world a state stands in, without the session.\<close>

definition world_part :: "state \<Rightarrow> world" where
  "world_part s = \<lparr>w_heap = heap s, w_next_ref = next_ref s, w_trace = trace s\<rparr>"

text \<open>The calls made while the session context is adapted (lines 104 to 113).\<close>

fun resolution_call :: "event \<Rightarrow> bool" where
  "resolution_call (Inject _) = True"
| "resolution_call (GetWalletByMsg _) = True"
| "resolution_call (ContextCopy _ _) = True"
| "resolution_call (SetInstance _ _) = True"
| "resolution_call _ = False"

text \<open>
  The answers of the objects the handler calls. Each may raise (\<open>Inl\<close>, or \<open>Some\<close> for
  a call without a result).
  \<^item> \<open>base_context\<close>: the reference of the shared context the transport manager binds
    to every new session;
  \<^item> \<open>inject_WalletHandler\<close>: \<^verbatim>\<open>context.inject(WalletHandler)\<close>;
  \<^item> \<open>get_wallet_by_msg\<close>, \<open>set_instance\<close>: the two methods of the wallet handler;
    \<open>set_instance\<close> gives the new content of the context object it is handed;
  \<^item> \<open>receive\<close>: \<^verbatim>\<open>session.receive(body)\<close>, which unpacks with the content of the
    session's current context;
  \<^item> \<open>wait_response\<close>: \<^verbatim>\<open>session.wait_response()\<close>; it gives the value returned to
    the handler and what the dispatcher has left in the session's response buffer.
\<close>

record env =
  base_context :: ctx_ref
  inject_WalletHandler :: "injection_context \<Rightarrow> exc option"
  get_wallet_by_msg :: "payload \<Rightarrow> exc + string list"
  set_instance :: "string \<Rightarrow> injection_context \<Rightarrow> exc + injection_context"
  receive :: "payload \<Rightarrow> injection_context \<Rightarrow> exc + inbound_message"
  wait_response :: "inbound_message \<Rightarrow> exc + (payload option \<times> payload option)"

text \<open>
  Modelled from the spec: the session class is not part of the file. \<^verbatim>\<open>create_session\<close>
  "constructs an Exchange bound to the default process context"; the flags are the
  keyword arguments the handler passes.
\<close>

definition create_session :: "env \<Rightarrow> bool \<Rightarrow> bool \<Rightarrow> string \<times> string option \<Rightarrow> world \<Rightarrow> state" where
  "create_session E accept_undelivered' can_respond' client_info' w =
     \<lparr>heap = w_heap w, next_ref = w_next_ref w, trace = w_trace w @ [CreateSession],
      sess = \<lparr>context_ref = base_context E, can_respond = can_respond',
              accept_undelivered = accept_undelivered', client_info = client_info',
              response_buffer = None, closed = False\<rparr>\<rparr>"

text \<open>
  Modelled from the spec: \<^verbatim>\<open>context.copy()\<close> of the injection context class, which is
  not part of the file: a new object with the same content ("substituting a new context
  value, never mutating the shared default"). It returns the new reference.
\<close>

definition context_copy :: "ctx_ref \<Rightarrow> state \<Rightarrow> ctx_ref \<times> state" where
  "context_copy r s =
     (let r' = next_ref s in
      (r', log (ContextCopy r r') (s\<lparr>heap := (heap s)(r' := heap s r), next_ref := Suc r'\<rparr>)))"

text \<open>
  Modelled from the spec: \<^verbatim>\<open>session.clear_response()\<close> of the session class drops the
  pending response.
\<close>

definition clear_response :: "state \<Rightarrow> state" where
  "clear_response s = log ClearResponse (s\<lparr>sess := (sess s)\<lparr>response_buffer := None\<rparr>\<rparr>)"

text \<open>
  Modelled from the spec: the session as an async context manager. Entering returns the
  session; leaving closes it ("releases all resources associated with the Exchange"), ends
  its ability to respond ("\<^verbatim>\<open>can_respond\<close> starts true and is set false exactly
  once, either after a reply is delivered or when the exchange is torn down") and does
  not swallow an exception.
\<close>

definition aenter :: "state \<Rightarrow> state" where
  "aenter s = log AEnter s"

definition aexit :: "state \<Rightarrow> state" where
  "aexit s = log AExit (s\<lparr>sess := (sess s)\<lparr>can_respond := False, closed := True\<rparr>\<rparr>)"

subsection \<open>\<^verbatim>\<open>inbound_message_handler\<close>\<close>

text \<open>
  Lines 89 to 93: the content type decides how the body is read.
  \<^verbatim>\<open>ctype.split(";", 1)[0]\<close> is the first element of a list that is never empty.
  Either read may raise; the exception then leaves the handler, before a session exists.
\<close>

definition media_type :: "string \<Rightarrow> string" where
  "media_type ctype = (case split_1 (CHR '';'') ctype of [] \<Rightarrow> [] | p # _ \<Rightarrow> p)"

definition read_body :: "request \<Rightarrow> world \<Rightarrow> (exc + payload) \<times> world" where
  "read_body request w =
     (let ctype = headers_get (request_headers request) ''content-type'' '''' in
      if str_lower (media_type ctype) = ''application/json''
      then (case request_text request of Inl e \<Rightarrow> Inl e | Inr t \<Rightarrow> Inr (Str t),
            w_log ReadText w)
      else (case request_read request of Inl e \<Rightarrow> Inl e | Inr b \<Rightarrow> Inr (Bytes b),
            w_log ReadBytes w))"

text \<open>
  Line 106: \<^verbatim>\<open>ext_plugins and 'aries_cloudagent.wallet_handler' in ext_plugins\<close>.
  \<^verbatim>\<open>None\<close> and the empty list are false.
\<close>

definition wallet_handler_declared :: "string list option \<Rightarrow> bool" where
  "wallet_handler_declared ext_plugins =
     (case ext_plugins of
        None \<Rightarrow> False
      | Some ps \<Rightarrow> ps \<noteq> [] \<and> ''aries_cloudagent.wallet_handler'' \<in> set ps)"

text \<open>
  Lines 104 to 113: adapt the session context for the wallet of the message. The result
  is the exception that left the block, if any.
\<close>

definition adapt_session_context :: "env \<Rightarrow> payload \<Rightarrow> state \<Rightarrow> exc option \<times> state" where
  "adapt_session_context E body s =
     (let ext_plugins = get_value (heap s (context_ref (sess s))) ''external_plugins'' in
      if wallet_handler_declared ext_plugins then
        (let s1 = log (Inject (context_ref (sess s))) s in
         case inject_WalletHandler E (heap s1 (context_ref (sess s1))) of
           Some e \<Rightarrow> (Some e, s1)
         | None \<Rightarrow>
             (let s2 = log (GetWalletByMsg body) s1 in
              case get_wallet_by_msg E body of
                Inl e \<Rightarrow> (Some e, s2)
              | Inr wallet_ids \<Rightarrow>
                  (let (r', s3) = context_copy (context_ref (sess s2)) s2;
                       s4 = s3\<lparr>sess := (sess s3)\<lparr>context_ref := r'\<rparr>\<rparr>
                   in case index_0 wallet_ids of
                        Inl e \<Rightarrow> (Some e, s4)
                      | Inr wallet_id \<Rightarrow>
                          (let s5 = log (SetInstance wallet_id (context_ref (sess s4))) s4 in
                           case set_instance E wallet_id (heap s5 (context_ref (sess s5))) of
                             Inl e \<Rightarrow> (Some e, s5)
                           | Inr c' \<Rightarrow>
                               (None, s5\<lparr>heap := (heap s5)(context_ref (sess s5) := c')\<rparr>)))))
      else (None, s))"

text \<open>
  Lines 117 to 141, the body of \<^verbatim>\<open>async with session\<close>. The result is the exception
  raised in the body, or the response returned from inside it, or \<open>Inr None\<close> when the
  body runs to its end.
\<close>

definition session_block :: "env \<Rightarrow> payload \<Rightarrow> state \<Rightarrow> (raised + response option) \<times> state" where
  "session_block E body s =
     (let s1 = log (Receive body (context_ref (sess s))) s in
      case receive E body (heap s1 (context_ref (sess s1))) of
        Inl e \<Rightarrow>
          (if e = MessageParseError then (Inl HTTPBadRequest, s1) else (Inl (Uncaught e), s1))
      | Inr inbound \<Rightarrow>
          if direct_response_requested (receipt inbound) then
            (let s2 = log WaitResponse s1 in
             case wait_response E inbound of
               Inl e \<Rightarrow> (Inl (Uncaught e), s2)
             | Inr (response, pending) \<Rightarrow>
                 (let s3 = s2\<lparr>sess := (sess s2)\<lparr>response_buffer := pending\<rparr>\<rparr>;
                      s4 = s3\<lparr>sess := (sess s3)\<lparr>can_respond := False\<rparr>\<rparr>;
                      s5 = clear_response s4
                  in case response of
                       None \<Rightarrow> (Inr None, s5)
                     | Some r \<Rightarrow>
                         if truthy r then
                           (case r of
                              Bytes b \<Rightarrow>
                                (Inr (Some \<lparr>status = 200, resp_body = Some b, resp_text = None,
                                   resp_headers = [(''Content-Type'', ''application/ssi-agent-wire'')]\<rparr>), s5)
                            | Str t \<Rightarrow>
                                (Inr (Some \<lparr>status = 200, resp_body = None, resp_text = Some t,
                                   resp_headers = [(''Content-Type'', ''application/json'')]\<rparr>), s5))
                         else (Inr None, s5)))
          else (Inr None, s1))"

text \<open>
  The whole handler, lines 89 to 143. It gives what it returns or raises, the world after
  the run, and the session if one was created. An exception while the body is read leaves
  the handler before \<^verbatim>\<open>create_session\<close>. The context is adapted before the
  \<^verbatim>\<open>async with\<close> statement: an exception there leaves the handler without entering or
  leaving the session. Inside the statement every exit runs \<open>aexit\<close>.
\<close>

definition inbound_message_handler ::
  "env \<Rightarrow> request \<Rightarrow> world \<Rightarrow> (raised + response) \<times> world \<times> session option" where
  "inbound_message_handler E request w =
     (case read_body request w of
        (Inl e, w1) \<Rightarrow> (Inl (Uncaught e), w1, None)
      | (Inr body, w1) \<Rightarrow>
          (let client_info' = (request_host request, request_remote request);
               s = create_session E True True client_info' w1
           in case adapt_session_context E body s of
                (Some e, s1) \<Rightarrow> (Inl (Uncaught e), world_part s1, Some (sess s1))
              | (None, s1) \<Rightarrow>
                  (let s2 = aenter s1;
                       (r, s3) = session_block E body s2;
                       s4 = aexit s3
                   in (case r of
                         Inl e \<Rightarrow> Inl e
                       | Inr (Some resp) \<Rightarrow> Inr resp
                       | Inr None \<Rightarrow>
                           Inr \<lparr>status = 200, resp_body = None, resp_text = None,
                                resp_headers = []\<rparr>,
                       world_part s4, Some (sess s4)))))"

text \<open>
  How aiohttp answers the peer: a returned response as it is, \<^verbatim>\<open>HTTPBadRequest\<close> as
  status 400, an HTTP exception of a callee as its own status, any other exception
  leaving the handler as status 500.
\<close>

fun surfaced_status :: "raised + response \<Rightarrow> nat" where
  "surfaced_status (Inr resp) = status resp"
| "surfaced_status (Inl HTTPBadRequest) = 400"
| "surfaced_status (Inl (Uncaught (HTTPException n))) = n"
| "surfaced_status (Inl _) = 500"

text \<open>
  Names for the stages of one handler run, used to state what happened in it: the read
  call of lines 91 or 93, the state after line 102, and, for a body that was read, the
  outcome of lines 104 to 113, the content of the context the session holds at line 115,
  the outcome of \<^verbatim>\<open>session.receive(body)\<close> with it, and the state in which the body of
  \<^verbatim>\<open>async with\<close> is left, before the session's exit runs; then the world and the
  session at the end of the run, and the calls the run added to the trace.
\<close>

definition read_call :: "request \<Rightarrow> event" where
  "read_call request =
     (if str_lower (media_type (headers_get (request_headers request) ''content-type'' ''''))
           = ''application/json''
      then ReadText else ReadBytes)"

definition opened :: "env \<Rightarrow> request \<Rightarrow> world \<Rightarrow> state" where
  "opened E request w =
     create_session E True True (request_host request, request_remote request)
       (snd (read_body request w))"

definition adapted :: "env \<Rightarrow> request \<Rightarrow> payload \<Rightarrow> world \<Rightarrow> exc option \<times> state" where
  "adapted E request body w = adapt_session_context E body (opened E request w)"

definition bound_context :: "env \<Rightarrow> request \<Rightarrow> payload \<Rightarrow> world \<Rightarrow> injection_context" where
  "bound_context E request body w =
     (let s = snd (adapted E request body w) in heap s (context_ref (sess s)))"

definition parsed :: "env \<Rightarrow> request \<Rightarrow> payload \<Rightarrow> world \<Rightarrow> exc + inbound_message" where
  "parsed E request body w = receive E body (bound_context E request body w)"

definition block_left :: "env \<Rightarrow> request \<Rightarrow> payload \<Rightarrow> world \<Rightarrow> state" where
  "block_left E request body w =
     snd (session_block E body (aenter (snd (adapted E request body w))))"

definition world_after :: "env \<Rightarrow> request \<Rightarrow> world \<Rightarrow> world" where
  "world_after E request w = fst (snd (inbound_message_handler E request w))"

definition session_after :: "env \<Rightarrow> request \<Rightarrow> world \<Rightarrow> session option" where
  "session_after E request w = snd (snd (inbound_message_handler E request w))"

definition calls :: "env \<Rightarrow> request \<Rightarrow> world \<Rightarrow> event list" where
  "calls E request w = drop (length (w_trace w)) (w_trace (world_after E request w))"

text \<open>
  The words of the specification for the content type: the media type is the part of the
  header before any semicolon, and it is compared with \<^verbatim>\<open>application/json\<close> without
  regard to the case of the letters. This definition is written from those words, not
  from the code, to be compared with the test of line 90.
\<close>

definition same_letter :: "char \<Rightarrow> char \<Rightarrow> bool" where
  "same_letter a b =
     (a = b
      \<or> (a, b) \<in> set (zip ''ABCDEFGHIJKLMNOPQRSTUVWXYZ'' ''abcdefghijklmnopqrstuvwxyz'')
      \<or> (b, a) \<in> set (zip ''ABCDEFGHIJKLMNOPQRSTUVWXYZ'' ''abcdefghijklmnopqrstuvwxyz''))"

definition spec_is_structured_text :: "string \<Rightarrow> bool" where
  "spec_is_structured_text ctype =
     list_all2 same_letter (takeWhile (\<lambda>c. c \<noteq> CHR '';'') ctype) ''application/json''"

subsection \<open>\<^verbatim>\<open>make_application\<close> and \<^verbatim>\<open>start\<close>\<close>

record application =
  client_max_size :: "int option"
  routes :: "(string \<times> string \<times> string) list"

record tcp_site =
  site_host :: string
  site_port :: int
  site_started :: bool

record transport =
  host :: string
  port :: int
  max_message_size :: int
  site :: "tcp_site option"

text \<open>Lines 38 to 47. \<^verbatim>\<open>if self.max_message_size\<close> is false for 0.\<close>

definition make_application :: "transport \<Rightarrow> application" where
  "make_application T =
     \<lparr>client_max_size = (if max_message_size T \<noteq> 0 then Some (max_message_size T) else None),
      routes = [(''GET'', ''/'', ''invite_message_handler''),
                (''POST'', ''/'', ''inbound_message_handler'')]\<rparr>"

text \<open>
  What \<^verbatim>\<open>start\<close> finds around it: the environment variable read at import time
  (\<^verbatim>\<open>os.getenv\<close> gives \<^verbatim>\<open>None\<close> when it is unset), and the outcomes of the aiohttp and
  APM calls (\<open>None\<close> when the call returns, \<open>Some e\<close> when it raises \<open>e\<close>).
\<close>

record start_env =
  ELASTIC_APM_ENABLED :: "string option"
  ElasticAPM :: "application \<Rightarrow> exc option"
  runner_setup :: "application \<Rightarrow> exc option"
  site_start :: "string \<Rightarrow> int \<Rightarrow> exc option"

text \<open>
  Lines 49 to 70. Only \<^verbatim>\<open>self.site.start()\<close> is inside the \<^verbatim>\<open>try\<close>. The message of
  \<^verbatim>\<open>InboundTransportSetupError\<close> is built from the host and the port, which the
  constructor carries here.
\<close>

definition start :: "start_env \<Rightarrow> transport \<Rightarrow> raised option \<times> transport" where
  "start E T =
     (let app = make_application T in
      case (if ELASTIC_APM_ENABLED E \<noteq> None \<and> ELASTIC_APM_ENABLED E = Some ''true''
            then ElasticAPM E app else None) of
        Some e \<Rightarrow> (Some (Uncaught e), T)
      | None \<Rightarrow>
          (case runner_setup E app of
             Some e \<Rightarrow> (Some (Uncaught e), T)
           | None \<Rightarrow>
               (let T1 = T\<lparr>site := Some \<lparr>site_host = host T, site_port = port T,
                                          site_started = False\<rparr>\<rparr>
                in case site_start E (host T1) (port T1) of
                     Some e \<Rightarrow>
                       (if e = OSError
                        then (Some (InboundTransportSetupError (host T1) (port T1)), T1)
                        else (Some (Uncaught e), T1))
                   | None \<Rightarrow>
                       (None, T1\<lparr>site := Some \<lparr>site_host = host T, site_port = port T,
                                                site_started = True\<rparr>\<rparr>))))"

subsection \<open>Concrete exchanges\<close>

text \<open>
  A context whose settings declare the wallet handler plugin and one whose settings do
  not, a world holding one of them at reference 0, a JSON request, a wire-format
  request, a JSON request whose body cannot be decoded, and an environment built from the
  answers of the wallet handler, of \<^verbatim>\<open>receive\<close> and of \<^verbatim>\<open>wait_response\<close>.
\<close>

definition custodial_context :: injection_context where
  "custodial_context =
     \<lparr>settings = [(''external_plugins'', [''aries_cloudagent.wallet_handler''])],
      wallet_instance = None\<rparr>"

definition plain_context :: injection_context where
  "plain_context = \<lparr>settings = [], wallet_instance = None\<rparr>"

definition world_of :: "injection_context \<Rightarrow> world" where
  "world_of c = \<lparr>w_heap = (\<lambda>_. c), w_next_ref = 1, w_trace = []\<rparr>"

definition json_request :: request where
  "json_request =
     \<lparr>request_headers = [(''Content-Type'', ''Application/JSON; charset=utf-8'')],
      request_text = Inr ''{}'', request_read = Inr [123, 125],
      request_host = ''agent.example:8020'', request_remote = Some ''192.0.2.7''\<rparr>"

definition wire_request :: request where
  "wire_request =
     \<lparr>request_headers = [(''Content-Type'', ''application/ssi-agent-wire'')],
      request_text = Inr ''{}'', request_read = Inr [123, 125],
      request_host = ''agent.example:8020'', request_remote = Some ''192.0.2.7''\<rparr>"

definition undecodable_request :: request where
  "undecodable_request =
     \<lparr>request_headers = [(''content-type'', ''application/json'')],
      request_text = Inl (OtherError ''UnicodeDecodeError''), request_read = Inr [255, 254],
      request_host = ''agent.example:8020'', request_remote = Some ''192.0.2.7''\<rparr>"

text \<open>
  An environment whose \<^verbatim>\<open>receive\<close> accepts one body only and raises
  \<^verbatim>\<open>MessageParseError\<close> for every other.
\<close>

definition accepting_only :: "payload \<Rightarrow> env" where
  "accepting_only good =
     \<lparr>base_context = 0,
      inject_WalletHandler = (\<lambda>_. None),
      get_wallet_by_msg = (\<lambda>_. Inr [''wallet-1'']),
      set_instance = (\<lambda>wallet_id c. Inr (c\<lparr>wallet_instance := Some wallet_id\<rparr>)),
      receive = (\<lambda>body _. if body = good
                           then Inr \<lparr>receipt = \<lparr>direct_response_requested = False\<rparr>\<rparr>
                           else Inl MessageParseError),
      wait_response = (\<lambda>_. Inr (None, None))\<rparr>"

definition message :: "bool \<Rightarrow> inbound_message" where
  "message direct = \<lparr>receipt = \<lparr>direct_response_requested = direct\<rparr>\<rparr>"

definition env_of ::
  "exc + string list \<Rightarrow> exc + inbound_message \<Rightarrow> exc + (payload option \<times> payload option) \<Rightarrow> env" where
  "env_of wallets inbound waited =
     \<lparr>base_context = 0,
      inject_WalletHandler = (\<lambda>_. None),
      get_wallet_by_msg = (\<lambda>_. wallets),
      set_instance = (\<lambda>wallet_id c. Inr (c\<lparr>wallet_instance := Some wallet_id\<rparr>)),
      receive = (\<lambda>_ _. inbound),
      wait_response = (\<lambda>_. waited)\<rparr>"

definition http_transport :: transport where
  "http_transport = \<lparr>host = ''0.0.0.0'', port = 8020, max_message_size = 0, site = None\<rparr>"

definition start_env_of :: "exc option \<Rightarrow> start_env" where
  "start_env_of bind =
     \<lparr>ELASTIC_APM_ENABLED = None, ElasticAPM = (\<lambda>_. None), runner_setup = (\<lambda>_. None),
      site_start = (\<lambda>_ _. bind)\<rparr>"

section \<open>Lemmas on the stages of the handler\<close>

lemma media_type_takeWhile: "media_type ctype = takeWhile (\<lambda>c. c \<noteq> CHR '';'') ctype"
proof (cases "dropWhile (\<lambda>c. c \<noteq> CHR '';'') ctype")
  case Nil
  then have whole: "takeWhile (\<lambda>c. c \<noteq> CHR '';'') ctype = ctype"
    by (simp add: takeWhile_eq_all_conv)
  show ?thesis
    unfolding media_type_def split_1_def Nil by (simp add: whole)
next
  case (Cons c rest)
  then show ?thesis
    by (simp add: media_type_def split_1_def)
qed

text \<open>The test of line 90 is the comparison the specification words.\<close>

lemma map_eq_list_all2: "(map f s = t) = list_all2 (\<lambda>a b. f a = b) s t"
  by (induction s arbitrary: t) (auto simp: list_all2_Cons1)

lemma list_all2_cong_right:
  "(\<And>a b. b \<in> set t \<Longrightarrow> P a b = Q a b) \<Longrightarrow> list_all2 P s t = list_all2 Q s t"
  by (induction s arbitrary: t) (auto simp: list_all2_Cons1)

lemma lower_table:
  assumes d: "distinct (map fst Z)"
    and left: "\<And>x y. (x, y) \<in> set Z \<Longrightarrow> x \<in> U"
    and b: "b \<notin> U"
  shows "((case map_of Z a of None \<Rightarrow> a | Some l \<Rightarrow> l) = b)
           = (a = b \<or> (a, b) \<in> set Z \<or> (b, a) \<in> set Z)"
proof -
  have nb: "(b, a) \<notin> set Z"
    using left b by blast
  show ?thesis
  proof (cases "map_of Z a")
    case None
    then have "(a, b) \<notin> set Z"
      using map_of_eq_Some_iff [OF d, of a b] by simp
    with None nb show ?thesis
      by simp
  next
    case (Some l)
    then have al: "(a, l) \<in> set Z"
      by (rule map_of_SomeD)
    then have "a \<noteq> b"
      using left b by blast
    moreover have "(a, b) \<in> set Z \<longleftrightarrow> l = b"
      using map_of_eq_Some_iff [OF d, of a b] Some by auto
    ultimately show ?thesis
      using Some nb by simp
  qed
qed

lemma char_lower_same_letter:
  assumes "b \<notin> set ''ABCDEFGHIJKLMNOPQRSTUVWXYZ''"
  shows "(char_lower a = b) = same_letter a b"
  unfolding char_lower_def same_letter_def
proof (rule lower_table [where U = "set ''ABCDEFGHIJKLMNOPQRSTUVWXYZ''"])
  show "distinct (map fst (zip ''ABCDEFGHIJKLMNOPQRSTUVWXYZ'' ''abcdefghijklmnopqrstuvwxyz''))"
    by simp
  show "\<And>x y. (x, y) \<in> set (zip ''ABCDEFGHIJKLMNOPQRSTUVWXYZ'' ''abcdefghijklmnopqrstuvwxyz'')
      \<Longrightarrow> x \<in> set ''ABCDEFGHIJKLMNOPQRSTUVWXYZ''"
    by (rule set_zip_leftD)
  show "b \<notin> set ''ABCDEFGHIJKLMNOPQRSTUVWXYZ''"
    by (rule assms)
qed

lemma json_not_upper:
  "b \<in> set ''application/json'' \<Longrightarrow> b \<notin> set ''ABCDEFGHIJKLMNOPQRSTUVWXYZ''"
  by auto

lemma lower_is_json: "(str_lower s = ''application/json'') = list_all2 same_letter s ''application/json''"
  unfolding str_lower_def map_eq_list_all2
  by (rule list_all2_cong_right) (rule char_lower_same_letter, rule json_not_upper)

lemma json_test_is_spec:
  "(str_lower (media_type ctype) = ''application/json'') = spec_is_structured_text ctype"
  by (simp only: lower_is_json media_type_takeWhile spec_is_structured_text_def)

lemma read_call_spec:
  "read_call request =
     (if spec_is_structured_text (headers_get (request_headers request) ''content-type'' '''')
      then ReadText else ReadBytes)"
  by (simp only: read_call_def json_test_is_spec)

lemma read_call_other:
  "\<not> resolution_call (read_call request)"
  "read_call request \<noteq> AEnter" "AEnter \<noteq> read_call request"
  "read_call request \<noteq> AExit" "AExit \<noteq> read_call request"
  "read_call request \<noteq> SetInstance i a" "SetInstance i a \<noteq> read_call request"
  "read_call request \<noteq> Receive b r" "Receive b r \<noteq> read_call request"
  "read_call request \<noteq> CreateSession" "CreateSession \<noteq> read_call request"
  by (simp_all add: read_call_def)

lemma read_body_world: "snd (read_body request w) = w_log (read_call request) w"
  by (simp add: read_body_def read_call_def Let_def)

lemma read_body_value:
  "fst (read_body request w) =
     (if spec_is_structured_text (headers_get (request_headers request) ''content-type'' '''')
      then (case request_text request of Inl e \<Rightarrow> Inl e | Inr t \<Rightarrow> Inr (Str t))
      else (case request_read request of Inl e \<Rightarrow> Inl e | Inr b \<Rightarrow> Inr (Bytes b)))"
  by (simp add: read_body_def Let_def json_test_is_spec)

lemma handler_unfold:
  "inbound_message_handler E request w =
     (case fst (read_body request w) of
        Inl e \<Rightarrow> (Inl (Uncaught e), w_log (read_call request) w, None)
      | Inr body \<Rightarrow>
          (case adapted E request body w of
             (Some e, s1) \<Rightarrow> (Inl (Uncaught e), world_part s1, Some (sess s1))
           | (None, s1) \<Rightarrow>
               (let s2 = aenter s1;
                    (r, s3) = session_block E body s2;
                    s4 = aexit s3
                in (case r of
                      Inl e \<Rightarrow> Inl e
                    | Inr (Some resp) \<Rightarrow> Inr resp
                    | Inr None \<Rightarrow>
                        Inr \<lparr>status = 200, resp_body = None, resp_text = None,
                             resp_headers = []\<rparr>,
                    world_part s4, Some (sess s4)))))"
proof -
  obtain rb w1 where r: "read_body request w = (rb, w1)"
    by (cases "read_body request w")
  with read_body_world [of request w] have w1: "w1 = w_log (read_call request) w"
    by simp
  show ?thesis
    by (cases rb) (simp_all add: inbound_message_handler_def adapted_def opened_def r w1 Let_def)
qed

lemma adapt_skipped:
  "\<not> wallet_handler_declared (get_value (heap s (context_ref (sess s))) ''external_plugins'')
   \<Longrightarrow> adapt_session_context E body s = (None, s)"
  by (simp add: adapt_session_context_def)

lemma adapt_frame:
  assumes "adapt_session_context E body s = (r, s')"
  shows "closed (sess s') = closed (sess s)"
    and "can_respond (sess s') = can_respond (sess s)"
    and "response_buffer (sess s') = response_buffer (sess s)"
    and "\<forall>a < next_ref s. heap s' a = heap s a"
    and "next_ref s \<le> next_ref s'"
  using assms
  by (auto simp: adapt_session_context_def context_copy_def log_def Let_def
      split: if_splits option.splits sum.splits list.splits prod.splits)

lemma block_parse_error:
  "receive E body (heap s (context_ref (sess s))) = Inl MessageParseError \<Longrightarrow>
   session_block E body s = (Inl HTTPBadRequest, log (Receive body (context_ref (sess s))) s)"
  by (simp add: session_block_def log_def)

lemma block_other_error:
  "receive E body (heap s (context_ref (sess s))) = Inl e \<Longrightarrow> e \<noteq> MessageParseError \<Longrightarrow>
   session_block E body s = (Inl (Uncaught e), log (Receive body (context_ref (sess s))) s)"
  by (simp add: session_block_def log_def)

lemma block_no_direct_response:
  "receive E body (heap s (context_ref (sess s))) = Inr inbound \<Longrightarrow>
   \<not> direct_response_requested (receipt inbound) \<Longrightarrow>
   session_block E body s = (Inr None, log (Receive body (context_ref (sess s))) s)"
  by (simp add: session_block_def log_def)

lemma block_wait_raises:
  "receive E body (heap s (context_ref (sess s))) = Inr inbound \<Longrightarrow>
   direct_response_requested (receipt inbound) \<Longrightarrow>
   wait_response E inbound = Inl e \<Longrightarrow>
   session_block E body s =
     (Inl (Uncaught e), log WaitResponse (log (Receive body (context_ref (sess s))) s))"
  by (simp add: session_block_def log_def)

text \<open>The response built at lines 129 to 141 from what the wait returned.\<close>

lemma block_waited:
  "receive E body (heap s (context_ref (sess s))) = Inr inbound \<Longrightarrow>
   direct_response_requested (receipt inbound) \<Longrightarrow>
   wait_response E inbound = Inr (response, pending) \<Longrightarrow>
   session_block E body s =
     ((case response of
         None \<Rightarrow> Inr None
       | Some (Bytes b) \<Rightarrow>
           (if b \<noteq> [] then Inr (Some \<lparr>status = 200, resp_body = Some b, resp_text = None,
              resp_headers = [(''Content-Type'', ''application/ssi-agent-wire'')]\<rparr>) else Inr None)
       | Some (Str t) \<Rightarrow>
           (if t \<noteq> [] then Inr (Some \<lparr>status = 200, resp_body = None, resp_text = Some t,
              resp_headers = [(''Content-Type'', ''application/json'')]\<rparr>) else Inr None)),
      s\<lparr>trace := trace s @ [Receive body (context_ref (sess s)), WaitResponse, ClearResponse],
        sess := (sess s)\<lparr>can_respond := False, response_buffer := None\<rparr>\<rparr>)"
  by (simp add: session_block_def log_def clear_response_def split: option.splits payload.splits)

lemma block_bad_request_iff:
  "(fst (session_block E body s) = Inl HTTPBadRequest)
     = (receive E body (heap s (context_ref (sess s))) = Inl MessageParseError)"
  by (auto simp: session_block_def log_def clear_response_def Let_def
      split: sum.splits option.splits payload.splits prod.splits if_splits)

lemma block_receive_only_here:
  "f body (heap s (context_ref (sess s))) = receive E body (heap s (context_ref (sess s))) \<Longrightarrow>
   session_block (E\<lparr>receive := f\<rparr>) body s = session_block E body s"
  by (simp add: session_block_def log_def Let_def split: sum.splits)

lemma adapt_receive_irrelevant:
  "adapt_session_context (E\<lparr>receive := f\<rparr>) body s = adapt_session_context E body s"
  by (simp add: adapt_session_context_def Let_def
      split: option.splits sum.splits prod.splits)

lemma opened_simps:
  "heap (opened E request w) = w_heap w"
  "next_ref (opened E request w) = w_next_ref w"
  "trace (opened E request w) = w_trace w @ [read_call request, CreateSession]"
  "context_ref (sess (opened E request w)) = base_context E"
  "can_respond (sess (opened E request w)) = True"
  "closed (sess (opened E request w)) = False"
  "response_buffer (sess (opened E request w)) = None"
  by (simp_all add: opened_def create_session_def read_body_world w_log_def)

lemma world_part_simps:
  "w_heap (world_part s) = heap s" "w_next_ref (world_part s) = next_ref s"
  "w_trace (world_part s) = trace s"
  by (simp_all add: world_part_def)

text \<open>The handler once the body is read and the context is adapted: what the block gives
  decides the rest.\<close>

lemma handler_entered:
  assumes "fst (read_body request w) = Inr body"
    and "adapted E request body w = (None, s1)"
    and "session_block E body (aenter s1) = (r, s3)"
  shows "inbound_message_handler E request w =
     ((case r of
         Inl e \<Rightarrow> Inl e
       | Inr (Some resp) \<Rightarrow> Inr resp
       | Inr None \<Rightarrow> Inr \<lparr>status = 200, resp_body = None, resp_text = None, resp_headers = []\<rparr>),
      world_part (aexit s3), Some (sess (aexit s3)))"
  using assms by (simp add: handler_unfold Let_def)

lemma handler_not_entered:
  assumes "fst (read_body request w) = Inr body"
    and "adapted E request body w = (Some e, s1)"
  shows "inbound_message_handler E request w = (Inl (Uncaught e), world_part s1, Some (sess s1))"
  using assms by (simp add: handler_unfold)

lemma handler_not_read:
  assumes "fst (read_body request w) = Inl e"
  shows "inbound_message_handler E request w =
           (Inl (Uncaught e), w_log (read_call request) w, None)"
  using assms by (simp add: handler_unfold)

lemma aenter_simps:
  "heap (aenter s) = heap s" "sess (aenter s) = sess s" "trace (aenter s) = trace s @ [AEnter]"
  "next_ref (aenter s) = next_ref s"
  by (simp_all add: aenter_def log_def)

lemma aexit_simps:
  "heap (aexit s) = heap s" "trace (aexit s) = trace s @ [AExit]"
  "next_ref (aexit s) = next_ref s"
  "closed (sess (aexit s)) = True"
  "can_respond (sess (aexit s)) = False"
  "response_buffer (sess (aexit s)) = response_buffer (sess s)"
  "context_ref (sess (aexit s)) = context_ref (sess s)"
  by (simp_all add: aexit_def log_def)

lemma log_simps:
  "heap (log e s) = heap s" "sess (log e s) = sess s" "trace (log e s) = trace s @ [e]"
  "next_ref (log e s) = next_ref s"
  by (simp_all add: log_def)

lemma parsed_entered:
  assumes "adapted E request body w = (None, s1)"
  shows "receive E body (heap (aenter s1) (context_ref (sess (aenter s1))))
         = parsed E request body w"
  using assms by (simp add: parsed_def bound_context_def aenter_simps)

lemma adapt_trace:
  assumes "adapt_session_context E body s = (r, s')"
  shows "\<exists>evs. trace s' = trace s @ evs \<and> (\<forall>e \<in> set evs. resolution_call e)"
  using assms
  by (auto simp: adapt_session_context_def context_copy_def log_def Let_def
      split: if_splits option.splits sum.splits list.splits prod.splits)

lemma adapt_resolved:
  assumes "wallet_handler_declared (get_value (heap s (context_ref (sess s))) ''external_plugins'')"
    and "inject_WalletHandler E (heap s (context_ref (sess s))) = None"
    and "get_wallet_by_msg E body = Inr (wallet_id # others)"
  shows "adapt_session_context E body s =
     (let s' = s\<lparr>heap := (heap s)(next_ref s := heap s (context_ref (sess s))),
                 next_ref := Suc (next_ref s),
                 trace := trace s @ [Inject (context_ref (sess s)), GetWalletByMsg body,
                                     ContextCopy (context_ref (sess s)) (next_ref s),
                                     SetInstance wallet_id (next_ref s)],
                 sess := (sess s)\<lparr>context_ref := next_ref s\<rparr>\<rparr>
      in case set_instance E wallet_id (heap s (context_ref (sess s))) of
           Inl e \<Rightarrow> (Some e, s')
         | Inr c' \<Rightarrow> (None, s'\<lparr>heap := (heap s')(next_ref s := c')\<rparr>))"
  using assms
  by (simp add: adapt_session_context_def context_copy_def log_def Let_def split: sum.splits)

lemma adapt_no_candidate:
  assumes "wallet_handler_declared (get_value (heap s (context_ref (sess s))) ''external_plugins'')"
    and "inject_WalletHandler E (heap s (context_ref (sess s))) = None"
    and "get_wallet_by_msg E body = Inr []"
  shows "adapt_session_context E body s =
     (Some IndexError,
      s\<lparr>heap := (heap s)(next_ref s := heap s (context_ref (sess s))),
        next_ref := Suc (next_ref s),
        trace := trace s @ [Inject (context_ref (sess s)), GetWalletByMsg body,
                            ContextCopy (context_ref (sess s)) (next_ref s)],
        sess := (sess s)\<lparr>context_ref := next_ref s\<rparr>\<rparr>)"
  using assms
  by (simp add: adapt_session_context_def context_copy_def log_def Let_def)

lemma index_0_Inr: "index_0 xs = Inr x \<longleftrightarrow> (\<exists>others. xs = x # others)"
  by (cases xs) auto

lemma adapt_set_instance:
  assumes "adapt_session_context E body s = (r, s')"
    and "trace s' = trace s @ evs"
    and "SetInstance wallet_id a \<in> set evs"
  shows "a = next_ref s \<and> context_ref (sess s') = a
       \<and> (\<exists>others. get_wallet_by_msg E body = Inr (wallet_id # others))
       \<and> evs = [Inject (context_ref (sess s)), GetWalletByMsg body,
                ContextCopy (context_ref (sess s)) a, SetInstance wallet_id a]"
  using assms
  by (auto simp: adapt_session_context_def context_copy_def log_def Let_def index_0_Inr
      split: if_splits option.splits sum.splits prod.splits)

lemma block_frame:
  assumes "session_block E body s = (r, s')"
  shows "heap s' = heap s" and "next_ref s' = next_ref s"
    and "context_ref (sess s') = context_ref (sess s)"
    and "closed (sess s') = closed (sess s)"
    and "\<exists>evs. trace s' = trace s @ Receive body (context_ref (sess s)) # evs
               \<and> set evs \<subseteq> {WaitResponse, ClearResponse}"
  using assms
  by (auto simp: session_block_def clear_response_def log_def Let_def
      split: if_splits option.splits sum.splits prod.splits payload.splits)

text \<open>The calls of one run: the body is read; if that raised nothing the session is
  created and the context is adapted; and only if that raised nothing is the session
  entered, the body received, and the session left.\<close>

lemma calls_read_failed:
  assumes "fst (read_body request w) = Inl e"
  shows "calls E request w = [read_call request]"
  using assms by (simp add: calls_def world_after_def handler_not_read w_log_def)

lemma calls_shape:
  assumes "fst (read_body request w) = Inr body"
  shows "\<exists>ra rb. calls E request w = read_call request # CreateSession # ra @ rb
      \<and> (\<forall>e \<in> set ra. resolution_call e)
      \<and> trace (snd (adapted E request body w)) = w_trace w @ read_call request # CreateSession # ra
      \<and> (case fst (adapted E request body w) of
            Some e \<Rightarrow> rb = []
          | None \<Rightarrow>
              (\<exists>evs. rb = AEnter # Receive body
                                   (context_ref (sess (snd (adapted E request body w)))) # evs @ [AExit]
                     \<and> set evs \<subseteq> {WaitResponse, ClearResponse}))"
proof -
  obtain r s1 where a: "adapted E request body w = (r, s1)"
    by (cases "adapted E request body w")
  from adapt_trace [OF a [unfolded adapted_def]]
  obtain ra where ra: "trace s1 = w_trace w @ read_call request # CreateSession # ra"
      "\<forall>e \<in> set ra. resolution_call e"
    by (auto simp: opened_simps)
  show ?thesis
  proof (cases r)
    case (Some e)
    with a ra show ?thesis
      by (simp add: calls_def world_after_def handler_not_entered [OF assms] world_part_simps)
  next
    case None
    obtain rr s3 where b: "session_block E body (aenter s1) = (rr, s3)"
      by (cases "session_block E body (aenter s1)")
    from block_frame(5) [OF b] obtain evs where
      evs: "trace s3 = trace (aenter s1) @ Receive body (context_ref (sess (aenter s1))) # evs"
        "set evs \<subseteq> {WaitResponse, ClearResponse}"
      by blast
    from a None have a': "adapted E request body w = (None, s1)" by simp
    from handler_entered [OF assms a' b] evs ra a' show ?thesis
      by (simp add: calls_def world_after_def world_part_simps aexit_simps aenter_simps)
  qed
qed

text \<open>A session exists at the end of a run exactly when the body was read, and it is
  closed exactly when, moreover, adapting the context raised nothing.\<close>

lemma closed_iff_context_adapted:
  "map_option closed (session_after E request w) =
     (case fst (read_body request w) of
        Inl e \<Rightarrow> None
      | Inr body \<Rightarrow> Some (fst (adapted E request body w) = None))"
proof (cases "fst (read_body request w)")
  case (Inl e)
  then show ?thesis
    by (simp add: session_after_def handler_not_read)
next
  case (Inr body)
  obtain r s1 where a: "adapted E request body w = (r, s1)"
    by (cases "adapted E request body w")
  show ?thesis
  proof (cases r)
    case (Some e)
    with a adapt_frame(1) [OF a [unfolded adapted_def]] Inr show ?thesis
      by (simp add: session_after_def handler_not_entered [OF Inr] opened_simps)
  next
    case None
    obtain rr s3 where b: "session_block E body (aenter s1) = (rr, s3)"
      by (cases "session_block E body (aenter s1)")
    from a None have a': "adapted E request body w = (None, s1)" by simp
    from handler_entered [OF Inr a' b] a' Inr show ?thesis
      by (simp add: session_after_def aexit_simps)
  qed
qed

lemma adapted_skipped:
  assumes "\<not> wallet_handler_declared (get_value (w_heap w (base_context E)) ''external_plugins'')"
  shows "adapted E request body w = (None, opened E request w)"
  using assms by (simp add: adapted_def adapt_skipped opened_simps)

text \<open>What the heap and the session's reference are at the end of a run, from what they
  are once the context is adapted.\<close>

lemma handler_keeps_adapted:
  assumes "fst (read_body request w) = Inr body"
  shows "w_heap (world_after E request w) = heap (snd (adapted E request body w))
   \<and> map_option context_ref (session_after E request w)
       = Some (context_ref (sess (snd (adapted E request body w))))"
proof -
  obtain r s1 where a: "adapted E request body w = (r, s1)"
    by (cases "adapted E request body w")
  show ?thesis
  proof (cases r)
    case (Some e)
    with a show ?thesis
      by (simp add: world_after_def session_after_def handler_not_entered [OF assms]
          world_part_simps)
  next
    case None
    obtain rr s3 where b: "session_block E body (aenter s1) = (rr, s3)"
      by (cases "session_block E body (aenter s1)")
    from a None have a': "adapted E request body w = (None, s1)" by simp
    from handler_entered [OF assms a' b] block_frame(1,3) [OF b] a' show ?thesis
      by (simp add: world_after_def session_after_def world_part_simps aexit_simps aenter_simps)
  qed
qed

lemma heap_kept_below:
  "\<forall>a < w_next_ref w. w_heap (world_after E request w) a = w_heap w a"
proof (cases "fst (read_body request w)")
  case (Inl e)
  then show ?thesis
    by (simp add: world_after_def handler_not_read w_log_def)
next
  case (Inr body)
  obtain r s1 where a: "adapted E request body w = (r, s1)"
    by (cases "adapted E request body w")
  from adapt_frame(4) [OF a [unfolded adapted_def]] handler_keeps_adapted [OF Inr, of E] a
  show ?thesis
    by (simp add: opened_simps)
qed

lemmas eval_defs =
  inbound_message_handler_def adapt_session_context_def session_block_def create_session_def
  context_copy_def clear_response_def aenter_def aexit_def log_def w_log_def world_part_def
  read_body_def read_call_def media_type_def
  split_1_def headers_get_def str_lower_def char_lower_def wallet_handler_declared_def
  get_value_def opened_def adapted_def bound_context_def parsed_def block_left_def
  world_after_def session_after_def calls_def
  custodial_context_def plain_context_def world_of_def json_request_def wire_request_def
  undecodable_request_def accepting_only_def message_def env_of_def Let_def

lemma opened_receive_irrelevant: "opened (E\<lparr>receive := f\<rparr>) request w = opened E request w"
  by (simp add: opened_def create_session_def)

lemma handler_receive_only_at_body:
  assumes "fst (read_body request w) = Inr body"
    and "f body (bound_context E request body w) = parsed E request body w"
  shows "inbound_message_handler (E\<lparr>receive := f\<rparr>) request w
           = inbound_message_handler E request w"
proof -
  have ad: "adapted (E\<lparr>receive := f\<rparr>) request body w = adapted E request body w"
    by (simp add: adapted_def opened_receive_irrelevant adapt_receive_irrelevant)
  obtain r s1 where a: "adapted E request body w = (r, s1)"
    by (cases "adapted E request body w")
  show ?thesis
  proof (cases r)
    case (Some e)
    with a ad show ?thesis
      by (simp add: handler_unfold assms(1))
  next
    case None
    with a have a': "adapted E request body w = (None, s1)" by simp
    have "f body (heap (aenter s1) (context_ref (sess (aenter s1))))
            = receive E body (heap (aenter s1) (context_ref (sess (aenter s1))))"
      using assms(2) a' by (simp add: parsed_def bound_context_def aenter_simps)
    then have "session_block (E\<lparr>receive := f\<rparr>) body (aenter s1)
                 = session_block E body (aenter s1)"
      by (rule block_receive_only_here [where f = f and E = E and body = body and s = "aenter s1"])
    with a' ad show ?thesis
      by (simp add: handler_unfold assms(1))
  qed
qed

lemma handler_bad_request_iff:
  assumes "fst (read_body request w) = Inr body"
    and "fst (adapted E request body w) = None"
  shows "(fst (inbound_message_handler E request w) = Inl HTTPBadRequest)
           = (parsed E request body w = Inl MessageParseError)"
proof -
  obtain s1 where a: "adapted E request body w = (None, s1)"
    using assms(2) by (cases "adapted E request body w") simp
  obtain rr s3 where b: "session_block E body (aenter s1) = (rr, s3)"
    by (cases "session_block E body (aenter s1)")
  have "(rr = Inl HTTPBadRequest) = (parsed E request body w = Inl MessageParseError)"
    using block_bad_request_iff [of E body "aenter s1"] b parsed_entered [OF a] by simp
  with handler_entered [OF assms(1) a b] show ?thesis
    by (auto split: sum.splits option.splits)
qed

section \<open>The claims\<close>

text \<open>
  Claim C1: the session is closed on every exit path of the handler, also when tenant
  resolution fails, in which case \<^verbatim>\<open>receive\<close> is not attempted.

  The handler does not do this. By \<open>closed_iff_context_adapted\<close> a session that was
  created is closed exactly when lines 104 to 113 raise nothing: they stand before the
  \<^verbatim>\<open>async with session\<close> statement, so an exception there leaves the handler with the
  session created and never closed. Evaluated on a JSON request to an agent that declares
  the wallet handler plugin: when \<^verbatim>\<open>get_wallet_by_msg\<close> raises, and when it returns no
  candidate, the exception leaves the handler, \<^verbatim>\<open>receive\<close> is not called (that part
  of the claim holds), and the session is still open.
\<close>

theorem session_left_open_when_resolution_fails:
  "fst (inbound_message_handler
          (env_of (Inl TenantResolutionError) (Inr (message False)) (Inr (None, None)))
          json_request (world_of custodial_context))
     = Inl (Uncaught TenantResolutionError)
   \<and> map_option closed (session_after
          (env_of (Inl TenantResolutionError) (Inr (message False)) (Inr (None, None)))
          json_request (world_of custodial_context)) = Some False
   \<and> calls (env_of (Inl TenantResolutionError) (Inr (message False)) (Inr (None, None)))
          json_request (world_of custodial_context)
     = [ReadText, CreateSession, Inject 0, GetWalletByMsg (Str ''{}'')]
   \<and> fst (inbound_message_handler
          (env_of (Inr []) (Inr (message False)) (Inr (None, None)))
          json_request (world_of custodial_context))
     = Inl (Uncaught IndexError)
   \<and> map_option closed (session_after
          (env_of (Inr []) (Inr (message False)) (Inr (None, None)))
          json_request (world_of custodial_context)) = Some False
   \<and> calls (env_of (Inr []) (Inr (message False)) (Inr (None, None)))
          json_request (world_of custodial_context)
     = [ReadText, CreateSession, Inject 0, GetWalletByMsg (Str ''{}''), ContextCopy 0 1]"
  by (simp add: eval_defs)

text \<open>
  Claim C2: when the parsed message requests a direct response and
  \<^verbatim>\<open>session.wait_response()\<close> returns, with or without a payload, the handler sets
  \<^verbatim>\<open>can_respond\<close> to false and clears the pending response. Whatever the wait
  returned and whatever was left in the response buffer: the flag, still true when the
  context is adapted, is false and the buffer is empty when the body of
  \<^verbatim>\<open>async with\<close> is left, before the session's exit runs; they are so at the end of
  the run; and the last calls are the wait, \<^verbatim>\<open>clear_response\<close> and the exit of the
  session.
\<close>

theorem wait_return_ends_responding:
  assumes "fst (read_body request w) = Inr body"
    and "fst (adapted E request body w) = None"
    and "parsed E request body w = Inr inbound"
    and "direct_response_requested (receipt inbound)"
    and "wait_response E inbound = Inr (response, pending)"
  shows "can_respond (sess (snd (adapted E request body w)))
       \<and> \<not> can_respond (sess (block_left E request body w))
       \<and> response_buffer (sess (block_left E request body w)) = None
       \<and> map_option can_respond (session_after E request w) = Some False
       \<and> map_option response_buffer (session_after E request w) = Some None
       \<and> (\<exists>pre. calls E request w = pre @ [WaitResponse, ClearResponse, AExit])"
proof -
  obtain s1 where a: "adapted E request body w = (None, s1)"
    using assms(2) by (cases "adapted E request body w") simp
  have p: "receive E body (heap (aenter s1) (context_ref (sess (aenter s1)))) = Inr inbound"
    using assms(3) parsed_entered [OF a] by simp
  note b = block_waited [OF p assms(4) assms(5)]
  from adapt_trace [OF a [unfolded adapted_def]]
  obtain evs where t: "trace s1 = w_trace w @ read_call request # CreateSession # evs"
    by (auto simp: opened_simps)
  have 1: "can_respond (sess (snd (adapted E request body w)))"
    using adapt_frame(2) [OF a [unfolded adapted_def]] a by (simp add: opened_simps)
  have 2: "\<not> can_respond (sess (block_left E request body w))
       \<and> response_buffer (sess (block_left E request body w)) = None"
    using a b by (simp add: block_left_def)
  have 3: "map_option can_respond (session_after E request w) = Some False
       \<and> map_option response_buffer (session_after E request w) = Some None
       \<and> (\<exists>pre. calls E request w = pre @ [WaitResponse, ClearResponse, AExit])"
    using handler_entered [OF assms(1) a b] t
    by (simp add: calls_def world_after_def session_after_def world_part_simps
        aexit_simps aenter_simps)
  from 1 2 3 show ?thesis by blast
qed

text \<open>The same at a concrete exchange, with every hypothesis discharged there.\<close>

theorem wait_return_ends_responding_witness:
  "fst (read_body json_request (world_of custodial_context)) = Inr (Str ''{}'')
   \<and> fst (adapted (env_of (Inr [''wallet-1'']) (Inr (message True))
                   (Inr (Some (Str ''ack''), Some (Str ''late''))))
         json_request (Str ''{}'') (world_of custodial_context)) = None
   \<and> parsed (env_of (Inr [''wallet-1'']) (Inr (message True))
                   (Inr (Some (Str ''ack''), Some (Str ''late''))))
         json_request (Str ''{}'') (world_of custodial_context) = Inr (message True)
   \<and> direct_response_requested (receipt (message True))
   \<and> can_respond (sess (snd (adapted (env_of (Inr [''wallet-1'']) (Inr (message True))
                   (Inr (Some (Str ''ack''), Some (Str ''late''))))
         json_request (Str ''{}'') (world_of custodial_context))))
   \<and> \<not> can_respond (sess (block_left (env_of (Inr [''wallet-1'']) (Inr (message True))
                   (Inr (Some (Str ''ack''), Some (Str ''late''))))
         json_request (Str ''{}'') (world_of custodial_context)))
   \<and> response_buffer (sess (block_left (env_of (Inr [''wallet-1'']) (Inr (message True))
                   (Inr (Some (Str ''ack''), Some (Str ''late''))))
         json_request (Str ''{}'') (world_of custodial_context))) = None
   \<and> map_option can_respond (session_after
         (env_of (Inr [''wallet-1'']) (Inr (message True))
                   (Inr (Some (Str ''ack''), Some (Str ''late''))))
         json_request (world_of custodial_context)) = Some False
   \<and> map_option response_buffer (session_after
         (env_of (Inr [''wallet-1'']) (Inr (message True))
                   (Inr (Some (Str ''ack''), Some (Str ''late''))))
         json_request (world_of custodial_context)) = Some None"
proof -
  let ?E = "env_of (Inr [''wallet-1'']) (Inr (message True))
                   (Inr (Some (Str ''ack''), Some (Str ''late'')))"
  let ?w = "world_of custodial_context"
  have h0: "fst (read_body json_request ?w) = Inr (Str ''{}'')"
    by (simp add: eval_defs)
  have h1: "fst (adapted ?E json_request (Str ''{}'') ?w) = None"
    by (simp add: eval_defs)
  have h2: "parsed ?E json_request (Str ''{}'') ?w = Inr (message True)"
    by (simp add: eval_defs)
  have h3: "direct_response_requested (receipt (message True))"
    by (simp add: message_def)
  have h4: "wait_response ?E (message True) = Inr (Some (Str ''ack''), Some (Str ''late''))"
    by (simp add: env_of_def)
  from wait_return_ends_responding [OF h0 h1 h2 h3 h4] h0 h1 h2 h3 show ?thesis
    by blast
qed

text \<open>
  Claim C3: when \<^verbatim>\<open>session.receive\<close> raises \<^verbatim>\<open>MessageParseError\<close>, the handler
  raises \<^verbatim>\<open>web.HTTPBadRequest\<close>, which the peer sees as status 400 and not as a server
  fault.
\<close>

theorem parse_error_is_bad_request:
  assumes "fst (read_body request w) = Inr body"
    and "fst (adapted E request body w) = None"
    and "parsed E request body w = Inl MessageParseError"
  shows "fst (inbound_message_handler E request w) = Inl HTTPBadRequest
       \<and> surfaced_status (fst (inbound_message_handler E request w)) = 400"
proof -
  obtain s1 where a: "adapted E request body w = (None, s1)"
    using assms(2) by (cases "adapted E request body w") simp
  have "session_block E body (aenter s1) =
          (Inl HTTPBadRequest, log (Receive body (context_ref (sess (aenter s1)))) (aenter s1))"
    using assms(3) parsed_entered [OF a] by (simp add: block_parse_error)
  from handler_entered [OF assms(1) a this] show ?thesis by simp
qed

text \<open>The same at a concrete exchange, with every hypothesis discharged there.\<close>

theorem parse_error_is_bad_request_witness:
  "fst (read_body wire_request (world_of plain_context)) = Inr (Bytes [123, 125])
   \<and> fst (adapted (env_of (Inr [''wallet-1'']) (Inl MessageParseError) (Inr (None, None)))
         wire_request (Bytes [123, 125]) (world_of plain_context)) = None
   \<and> parsed (env_of (Inr [''wallet-1'']) (Inl MessageParseError) (Inr (None, None)))
         wire_request (Bytes [123, 125]) (world_of plain_context) = Inl MessageParseError
   \<and> fst (inbound_message_handler
            (env_of (Inr [''wallet-1'']) (Inl MessageParseError) (Inr (None, None)))
            wire_request (world_of plain_context)) = Inl HTTPBadRequest
   \<and> surfaced_status (fst (inbound_message_handler
            (env_of (Inr [''wallet-1'']) (Inl MessageParseError) (Inr (None, None)))
            wire_request (world_of plain_context))) = 400"
proof -
  let ?E = "env_of (Inr [''wallet-1'']) (Inl MessageParseError) (Inr (None, None))"
  have h0: "fst (read_body wire_request (world_of plain_context)) = Inr (Bytes [123, 125])"
    by (simp add: eval_defs)
  have h1: "fst (adapted ?E wire_request (Bytes [123, 125]) (world_of plain_context)) = None"
    by (simp add: eval_defs)
  have h2: "parsed ?E wire_request (Bytes [123, 125]) (world_of plain_context)
              = Inl MessageParseError"
    by (simp add: eval_defs)
  from parse_error_is_bad_request [OF h0 h1 h2] h0 h1 h2 show ?thesis
    by blast
qed

text \<open>
  Claim C4: the body is read as text exactly when the media type of the content-type
  header (the part before any semicolon, compared without regard to case) is
  \<^verbatim>\<open>application/json\<close>, and as bytes otherwise, and it is passed unmodified to
  \<^verbatim>\<open>session.receive\<close>.
  \<^item> The first call of every run is \<^verbatim>\<open>request.text()\<close> when the header is structured
    text in the words of the specification, \<^verbatim>\<open>request.read()\<close> otherwise, and no other
    read follows; what the read gives, a string, bytes or an exception, is taken as it is.
  \<^item> When the read raises, the exception leaves the handler, no session is created and
    \<^verbatim>\<open>receive\<close> is not called.
  \<^item> When the read gives a body, every call of \<^verbatim>\<open>receive\<close> is made with that body;
    when moreover adapting the context raises nothing, \<^verbatim>\<open>receive\<close> is called with it,
    the handler raises \<^verbatim>\<open>HTTPBadRequest\<close> exactly when \<^verbatim>\<open>receive\<close> raises
    \<^verbatim>\<open>MessageParseError\<close> on that body with the bound context; and the outcome of the
    run depends on \<^verbatim>\<open>receive\<close> only through its answer on that body and that context.
\<close>

theorem body_read_by_content_type:
  "(\<exists>rest. calls E request w =
        (if spec_is_structured_text (headers_get (request_headers request) ''content-type'' '''')
         then ReadText else ReadBytes) # rest
      \<and> ReadText \<notin> set rest \<and> ReadBytes \<notin> set rest)
   \<and> fst (read_body request w) =
       (if spec_is_structured_text (headers_get (request_headers request) ''content-type'' '''')
        then (case request_text request of Inl e \<Rightarrow> Inl e | Inr t \<Rightarrow> Inr (Str t))
        else (case request_read request of Inl e \<Rightarrow> Inl e | Inr b \<Rightarrow> Inr (Bytes b)))
   \<and> (\<forall>e. fst (read_body request w) = Inl e \<longrightarrow>
         fst (inbound_message_handler E request w) = Inl (Uncaught e)
         \<and> session_after E request w = None
         \<and> (\<forall>b r. Receive b r \<notin> set (calls E request w)))
   \<and> (\<forall>body. fst (read_body request w) = Inr body \<longrightarrow>
         (\<forall>b r. Receive b r \<in> set (calls E request w) \<longrightarrow> b = body)
         \<and> (fst (adapted E request body w) = None \<longrightarrow>
               Receive body (context_ref (sess (snd (adapted E request body w))))
                 \<in> set (calls E request w)
               \<and> (fst (inbound_message_handler E request w) = Inl HTTPBadRequest)
                   = (parsed E request body w = Inl MessageParseError))
         \<and> (\<forall>f. f body (bound_context E request body w) = parsed E request body w \<longrightarrow>
               inbound_message_handler (E\<lparr>receive := f\<rparr>) request w
                 = inbound_message_handler E request w))"
proof -
  let ?json = "spec_is_structured_text (headers_get (request_headers request) ''content-type'' '''')"
  have rc: "read_call request = (if ?json then ReadText else ReadBytes)"
    by (rule read_call_spec)
  have reads: "\<exists>rest. calls E request w = read_call request # rest
      \<and> ReadText \<notin> set rest \<and> ReadBytes \<notin> set rest"
  proof (cases "fst (read_body request w)")
    case (Inl e)
    then show ?thesis by (simp add: calls_read_failed)
  next
    case (Inr body)
    from calls_shape [OF Inr, of E] obtain ra rb where
      c: "calls E request w = read_call request # CreateSession # ra @ rb"
        "\<forall>e \<in> set ra. resolution_call e"
        "case fst (adapted E request body w) of
            Some e \<Rightarrow> rb = []
          | None \<Rightarrow>
              (\<exists>evs. rb = AEnter # Receive body
                                   (context_ref (sess (snd (adapted E request body w)))) # evs @ [AExit]
                     \<and> set evs \<subseteq> {WaitResponse, ClearResponse})"
      by blast
    have ra: "ReadText \<notin> set ra \<and> ReadBytes \<notin> set ra"
      using c(2) by auto
    have rb: "ReadText \<notin> set rb \<and> ReadBytes \<notin> set rb"
      using c(3) by (cases "fst (adapted E request body w)") auto
    from ra rb show ?thesis
      by (simp add: c(1))
  qed
  have failed: "\<forall>e. fst (read_body request w) = Inl e \<longrightarrow>
         fst (inbound_message_handler E request w) = Inl (Uncaught e)
         \<and> session_after E request w = None
         \<and> (\<forall>b r. Receive b r \<notin> set (calls E request w))"
    by (simp add: handler_not_read session_after_def calls_read_failed read_call_other)
  have passed: "\<forall>body. fst (read_body request w) = Inr body \<longrightarrow>
         (\<forall>b r. Receive b r \<in> set (calls E request w) \<longrightarrow> b = body)
         \<and> (fst (adapted E request body w) = None \<longrightarrow>
               Receive body (context_ref (sess (snd (adapted E request body w))))
                 \<in> set (calls E request w)
               \<and> (fst (inbound_message_handler E request w) = Inl HTTPBadRequest)
                   = (parsed E request body w = Inl MessageParseError))
         \<and> (\<forall>f. f body (bound_context E request body w) = parsed E request body w \<longrightarrow>
               inbound_message_handler (E\<lparr>receive := f\<rparr>) request w
                 = inbound_message_handler E request w)"
  proof (intro allI impI)
    fix body
    assume r: "fst (read_body request w) = Inr body"
    from calls_shape [OF r, of E] obtain ra rb where
      c: "calls E request w = read_call request # CreateSession # ra @ rb"
        "\<forall>e \<in> set ra. resolution_call e"
        "case fst (adapted E request body w) of
            Some e \<Rightarrow> rb = []
          | None \<Rightarrow>
              (\<exists>evs. rb = AEnter # Receive body
                                   (context_ref (sess (snd (adapted E request body w)))) # evs @ [AExit]
                     \<and> set evs \<subseteq> {WaitResponse, ClearResponse})"
      by blast
    have 1: "\<forall>b r. Receive b r \<in> set (calls E request w) \<longrightarrow> b = body"
      using c by (cases "fst (adapted E request body w)") (auto simp: read_call_other)
    have 2: "fst (adapted E request body w) = None \<longrightarrow>
               Receive body (context_ref (sess (snd (adapted E request body w))))
                 \<in> set (calls E request w)"
      using c by (cases "fst (adapted E request body w)") auto
    have 3: "fst (adapted E request body w) = None \<longrightarrow>
               (fst (inbound_message_handler E request w) = Inl HTTPBadRequest)
                   = (parsed E request body w = Inl MessageParseError)"
      using handler_bad_request_iff [OF r] by blast
    have 4: "\<forall>f. f body (bound_context E request body w) = parsed E request body w \<longrightarrow>
               inbound_message_handler (E\<lparr>receive := f\<rparr>) request w
                 = inbound_message_handler E request w"
      using handler_receive_only_at_body [OF r] by blast
    from 1 2 3 4 show "(\<forall>b r. Receive b r \<in> set (calls E request w) \<longrightarrow> b = body)
         \<and> (fst (adapted E request body w) = None \<longrightarrow>
               Receive body (context_ref (sess (snd (adapted E request body w))))
                 \<in> set (calls E request w)
               \<and> (fst (inbound_message_handler E request w) = Inl HTTPBadRequest)
                   = (parsed E request body w = Inl MessageParseError))
         \<and> (\<forall>f. f body (bound_context E request body w) = parsed E request body w \<longrightarrow>
               inbound_message_handler (E\<lparr>receive := f\<rparr>) request w
                 = inbound_message_handler E request w)"
      by blast
  qed
  from reads [unfolded rc] read_body_value [of request w] failed passed
  show ?thesis
    by (intro conjI)
qed

text \<open>The same at a concrete exchange, with every hypothesis discharged there.\<close>

theorem body_read_by_content_type_witness:
  "fst (read_body json_request (world_of custodial_context)) = Inr (Str ''{}'')
   \<and> fst (adapted (accepting_only (Bytes [123, 125])) json_request (Str ''{}'')
            (world_of custodial_context)) = None
   \<and> parsed (accepting_only (Bytes [123, 125])) json_request (Str ''{}'')
            (world_of custodial_context) = Inl MessageParseError
   \<and> Receive (Str ''{}'') 1 \<in> set (calls (accepting_only (Bytes [123, 125])) json_request
            (world_of custodial_context))
   \<and> fst (inbound_message_handler (accepting_only (Bytes [123, 125])) json_request
            (world_of custodial_context)) = Inl HTTPBadRequest
   \<and> fst (inbound_message_handler (accepting_only (Str ''{}'')) json_request
            (world_of custodial_context)) \<noteq> Inl HTTPBadRequest
   \<and> fst (read_body undecodable_request (world_of custodial_context))
        = Inl (OtherError ''UnicodeDecodeError'')
   \<and> fst (inbound_message_handler (accepting_only (Str ''{}'')) undecodable_request
            (world_of custodial_context)) = Inl (Uncaught (OtherError ''UnicodeDecodeError''))
   \<and> session_after (accepting_only (Str ''{}'')) undecodable_request
            (world_of custodial_context) = None"
proof -
  let ?B = "accepting_only (Bytes [123, 125])"
  let ?S = "accepting_only (Str ''{}'')"
  let ?w = "world_of custodial_context"
  have h0: "fst (read_body json_request ?w) = Inr (Str ''{}'')"
    by (simp add: eval_defs)
  have h1: "fst (adapted ?B json_request (Str ''{}'') ?w) = None"
    by (simp add: eval_defs)
  have h1': "fst (adapted ?S json_request (Str ''{}'') ?w) = None"
    by (simp add: eval_defs)
  have r: "context_ref (sess (snd (adapted ?B json_request (Str ''{}'') ?w))) = 1"
    by (simp add: eval_defs)
  have p: "parsed ?B json_request (Str ''{}'') ?w = Inl MessageParseError"
    by (simp add: eval_defs)
  have p': "parsed ?S json_request (Str ''{}'') ?w \<noteq> Inl MessageParseError"
    by (simp add: eval_defs)
  have f: "fst (read_body undecodable_request ?w) = Inl (OtherError ''UnicodeDecodeError'')"
    by (simp add: eval_defs)
  note b = body_read_by_content_type [of ?B json_request ?w, THEN conjunct2, THEN conjunct2, THEN conjunct2,
      rule_format, OF h0, THEN conjunct2, THEN conjunct1, rule_format, OF h1]
  note s = body_read_by_content_type [of ?S json_request ?w, THEN conjunct2, THEN conjunct2, THEN conjunct2,
      rule_format, OF h0, THEN conjunct2, THEN conjunct1, rule_format, OF h1']
  note u = body_read_by_content_type [of ?S undecodable_request ?w, THEN conjunct2, THEN conjunct2, THEN conjunct1,
      rule_format, OF f]
  from b have 1: "Receive (Str ''{}'') 1 \<in> set (calls ?B json_request ?w)"
    by (simp only: r)
  from b p have 2: "fst (inbound_message_handler ?B json_request ?w) = Inl HTTPBadRequest"
    by blast
  from s p' have 3: "fst (inbound_message_handler ?S json_request ?w) \<noteq> Inl HTTPBadRequest"
    by blast
  from u have 4: "fst (inbound_message_handler ?S undecodable_request ?w)
      = Inl (Uncaught (OtherError ''UnicodeDecodeError''))"
    by (rule conjunct1)
  from u have 5: "session_after ?S undecodable_request ?w = None"
    by (rule conjunct1 [OF conjunct2])
  from h0 h1 p 1 2 3 f 4 5 show ?thesis
    by (intro conjI)
qed

text \<open>
  Claim C5, amended: when a direct response is requested and the wait returns a payload
  that is not empty, the handler returns status 200 with the payload as a byte body tagged
  \<^verbatim>\<open>application/ssi-agent-wire\<close> if it is a \<^verbatim>\<open>bytes\<close> object, and as a text body
  tagged \<^verbatim>\<open>application/json\<close> otherwise. The claim as written has no condition on
  the payload; line 129 tests \<^verbatim>\<open>if response\<close>, which is false for an empty payload.
\<close>

theorem nonempty_payload_response:
  assumes "fst (read_body request w) = Inr body"
    and "fst (adapted E request body w) = None"
    and "parsed E request body w = Inr inbound"
    and "direct_response_requested (receipt inbound)"
    and "wait_response E inbound = Inr (Some r, pending)"
    and "truthy r"
  shows "fst (inbound_message_handler E request w) =
     Inr (case r of
            Bytes b \<Rightarrow> \<lparr>status = 200, resp_body = Some b, resp_text = None,
                        resp_headers = [(''Content-Type'', ''application/ssi-agent-wire'')]\<rparr>
          | Str t \<Rightarrow> \<lparr>status = 200, resp_body = None, resp_text = Some t,
                      resp_headers = [(''Content-Type'', ''application/json'')]\<rparr>)"
proof -
  obtain s1 where a: "adapted E request body w = (None, s1)"
    using assms(2) by (cases "adapted E request body w") simp
  have p: "receive E body (heap (aenter s1) (context_ref (sess (aenter s1)))) = Inr inbound"
    using assms(3) parsed_entered [OF a] by simp
  from handler_entered [OF assms(1) a block_waited [OF p assms(4) assms(5)]] assms(6)
  show ?thesis
    by (cases r) simp_all
qed

text \<open>The same at a concrete exchange, with every hypothesis discharged there.\<close>

theorem nonempty_payload_response_witness:
  "fst (read_body wire_request (world_of plain_context)) = Inr (Bytes [123, 125])
   \<and> fst (adapted (env_of (Inr []) (Inr (message True)) (Inr (Some (Bytes [1, 2]), None)))
         wire_request (Bytes [123, 125]) (world_of plain_context)) = None
   \<and> parsed (env_of (Inr []) (Inr (message True)) (Inr (Some (Bytes [1, 2]), None)))
         wire_request (Bytes [123, 125]) (world_of plain_context) = Inr (message True)
   \<and> direct_response_requested (receipt (message True))
   \<and> truthy (Bytes [1, 2])
   \<and> fst (inbound_message_handler
            (env_of (Inr []) (Inr (message True)) (Inr (Some (Bytes [1, 2]), None)))
            wire_request (world_of plain_context))
       = Inr \<lparr>status = 200, resp_body = Some [1, 2], resp_text = None,
               resp_headers = [(''Content-Type'', ''application/ssi-agent-wire'')]\<rparr>"
proof -
  let ?E = "env_of (Inr []) (Inr (message True)) (Inr (Some (Bytes [1, 2]), None))"
  have h0: "fst (read_body wire_request (world_of plain_context)) = Inr (Bytes [123, 125])"
    by (simp add: eval_defs)
  have h1: "fst (adapted ?E wire_request (Bytes [123, 125]) (world_of plain_context)) = None"
    by (simp add: eval_defs)
  have h2: "parsed ?E wire_request (Bytes [123, 125]) (world_of plain_context) = Inr (message True)"
    by (simp add: eval_defs)
  have h3: "direct_response_requested (receipt (message True))"
    by (simp add: message_def)
  have h4: "wait_response ?E (message True) = Inr (Some (Bytes [1, 2]), None)"
    by (simp add: env_of_def)
  have h5: "truthy (Bytes [1, 2])"
    by simp
  have "fst (inbound_message_handler ?E wire_request (world_of plain_context))
       = Inr \<lparr>status = 200, resp_body = Some [1, 2], resp_text = None,
               resp_headers = [(''Content-Type'', ''application/ssi-agent-wire'')]\<rparr>"
    using nonempty_payload_response [OF h0 h1 h2 h3 h4 h5] by (simp only: payload.case)
  with h0 h1 h2 h3 h5 show ?thesis
    by (intro conjI)
qed

text \<open>
  Without the condition on the payload the statement fails: the wait returns the empty
  \<^verbatim>\<open>bytes\<close> object, and the handler returns the empty response of line 143, without a
  body and without a content tag.
\<close>

theorem empty_payload_counterexample:
  "fst (read_body wire_request (world_of plain_context)) = Inr (Bytes [123, 125])
   \<and> fst (adapted (env_of (Inr []) (Inr (message True)) (Inr (Some (Bytes []), None)))
         wire_request (Bytes [123, 125]) (world_of plain_context)) = None
   \<and> parsed (env_of (Inr []) (Inr (message True)) (Inr (Some (Bytes []), None)))
         wire_request (Bytes [123, 125]) (world_of plain_context) = Inr (message True)
   \<and> direct_response_requested (receipt (message True))
   \<and> wait_response (env_of (Inr []) (Inr (message True)) (Inr (Some (Bytes []), None)))
         (message True) = Inr (Some (Bytes []), None)
   \<and> fst (inbound_message_handler
            (env_of (Inr []) (Inr (message True)) (Inr (Some (Bytes []), None)))
            wire_request (world_of plain_context))
       = Inr \<lparr>status = 200, resp_body = None, resp_text = None, resp_headers = []\<rparr>
   \<and> fst (inbound_message_handler
            (env_of (Inr []) (Inr (message True)) (Inr (Some (Bytes []), None)))
            wire_request (world_of plain_context))
       \<noteq> Inr \<lparr>status = 200, resp_body = Some [], resp_text = None,
               resp_headers = [(''Content-Type'', ''application/ssi-agent-wire'')]\<rparr>"
  by (simp add: eval_defs)

text \<open>
  Claim C6: when no payload is returned to the handler, because the parsed message
  requests no direct response or because the wait returned \<^verbatim>\<open>None\<close>, the handler
  returns the empty response with status 200; a wait that timed out is not a fault.
\<close>

theorem no_payload_empty_success:
  assumes "fst (read_body request w) = Inr body"
    and "fst (adapted E request body w) = None"
    and "parsed E request body w = Inr inbound"
    and "\<not> direct_response_requested (receipt inbound)
         \<or> (\<exists>pending. wait_response E inbound = Inr (None, pending))"
  shows "fst (inbound_message_handler E request w) =
           Inr \<lparr>status = 200, resp_body = None, resp_text = None, resp_headers = []\<rparr>
       \<and> surfaced_status (fst (inbound_message_handler E request w)) = 200"
proof -
  obtain s1 where a: "adapted E request body w = (None, s1)"
    using assms(2) by (cases "adapted E request body w") simp
  have p: "receive E body (heap (aenter s1) (context_ref (sess (aenter s1)))) = Inr inbound"
    using assms(3) parsed_entered [OF a] by simp
  show ?thesis
  proof (cases "direct_response_requested (receipt inbound)")
    case False
    from handler_entered [OF assms(1) a block_no_direct_response [OF p False]] show ?thesis by simp
  next
    case True
    with assms(4) obtain pending where "wait_response E inbound = Inr (None, pending)" by blast
    from handler_entered [OF assms(1) a block_waited [OF p True this]] show ?thesis by simp
  qed
qed

text \<open>The same at a concrete exchange, with every hypothesis discharged there.\<close>

theorem no_payload_empty_success_witness:
  "fst (read_body json_request (world_of custodial_context)) = Inr (Str ''{}'')
   \<and> fst (adapted (env_of (Inr [''wallet-1'']) (Inr (message True)) (Inr (None, None)))
         json_request (Str ''{}'') (world_of custodial_context)) = None
   \<and> parsed (env_of (Inr [''wallet-1'']) (Inr (message True)) (Inr (None, None)))
         json_request (Str ''{}'') (world_of custodial_context) = Inr (message True)
   \<and> wait_response (env_of (Inr [''wallet-1'']) (Inr (message True)) (Inr (None, None)))
         (message True) = Inr (None, None)
   \<and> fst (inbound_message_handler
            (env_of (Inr [''wallet-1'']) (Inr (message True)) (Inr (None, None)))
            json_request (world_of custodial_context))
       = Inr \<lparr>status = 200, resp_body = None, resp_text = None, resp_headers = []\<rparr>
   \<and> \<not> direct_response_requested (receipt (message False))
   \<and> fst (inbound_message_handler
            (env_of (Inr []) (Inr (message False)) (Inr (Some (Str ''ack''), None)))
            wire_request (world_of plain_context))
       = Inr \<lparr>status = 200, resp_body = None, resp_text = None, resp_headers = []\<rparr>"
proof -
  let ?E = "env_of (Inr [''wallet-1'']) (Inr (message True)) (Inr (None, None))"
  let ?F = "env_of (Inr []) (Inr (message False)) (Inr (Some (Str ''ack''), None))"
  have h0: "fst (read_body json_request (world_of custodial_context)) = Inr (Str ''{}'')"
    by (simp add: eval_defs)
  have h1: "fst (adapted ?E json_request (Str ''{}'') (world_of custodial_context)) = None"
    by (simp add: eval_defs)
  have h2: "parsed ?E json_request (Str ''{}'') (world_of custodial_context) = Inr (message True)"
    by (simp add: eval_defs)
  have h4: "wait_response ?E (message True) = Inr (None, None)"
    by (simp add: env_of_def)
  then have h3: "\<not> direct_response_requested (receipt (message True))
         \<or> (\<exists>pending. wait_response ?E (message True) = Inr (None, pending))"
    by blast
  have k0: "fst (read_body wire_request (world_of plain_context)) = Inr (Bytes [123, 125])"
    by (simp add: eval_defs)
  have k1: "fst (adapted ?F wire_request (Bytes [123, 125]) (world_of plain_context)) = None"
    by (simp add: eval_defs)
  have k2: "parsed ?F wire_request (Bytes [123, 125]) (world_of plain_context) = Inr (message False)"
    by (simp add: eval_defs)
  have k4: "\<not> direct_response_requested (receipt (message False))"
    by (simp add: message_def)
  then have k3: "\<not> direct_response_requested (receipt (message False))
         \<or> (\<exists>pending. wait_response ?F (message False) = Inr (None, pending))"
    by blast
  from no_payload_empty_success [OF h0 h1 h2 h3] no_payload_empty_success [OF k0 k1 k2 k3] h0 h1 h2 h4 k4
  show ?thesis
    by blast
qed

text \<open>
  Claim C7: when the \<^verbatim>\<open>external_plugins\<close> setting does not declare the wallet handler
  plugin, lines 107 to 113 are skipped: in every run none of their calls is made and the
  store of contexts is unchanged; and when the body was read, so that a session exists,
  the session holds the very reference of the base context, when \<^verbatim>\<open>receive\<close> is
  called and at the end of the run.
\<close>

theorem routing_disabled_keeps_base_context:
  assumes "\<not> wallet_handler_declared (get_value (w_heap w (base_context E)) ''external_plugins'')"
  shows "w_heap (world_after E request w) = w_heap w
       \<and> (\<forall>e \<in> set (calls E request w). \<not> resolution_call e)
       \<and> (\<forall>body. fst (read_body request w) = Inr body \<longrightarrow>
             adapted E request body w = (None, opened E request w)
             \<and> context_ref (sess (snd (adapted E request body w))) = base_context E
             \<and> map_option context_ref (session_after E request w) = Some (base_context E)
             \<and> take 4 (calls E request w) =
                 [read_call request, CreateSession, AEnter, Receive body (base_context E)])"
proof (cases "fst (read_body request w)")
  case (Inl e)
  then show ?thesis
    by (simp add: world_after_def handler_not_read w_log_def calls_read_failed read_call_other)
next
  case (Inr body)
  have a: "adapted E request body w = (None, opened E request w)"
    using assms by (rule adapted_skipped)
  obtain rr s3 where
    b: "session_block E body (aenter (opened E request w)) = (rr, s3)"
    by (cases "session_block E body (aenter (opened E request w))")
  note h = handler_entered [OF Inr a b]
  from block_frame(5) [OF b] obtain evs where
    evs: "trace s3 = w_trace w @ [read_call request, CreateSession, AEnter,
                                 Receive body (base_context E)] @ evs"
      "set evs \<subseteq> {WaitResponse, ClearResponse}"
    by (auto simp: aenter_simps opened_simps)
  have c: "calls E request w =
      [read_call request, CreateSession, AEnter, Receive body (base_context E)] @ evs @ [AExit]"
    using h evs(1) by (simp add: calls_def world_after_def world_part_simps aexit_simps)
  have 1: "\<forall>e \<in> set (calls E request w). \<not> resolution_call e"
    using evs(2) by (auto simp: c read_call_other)
  have 2: "map_option context_ref (session_after E request w) = Some (base_context E)"
    using h block_frame(3) [OF b]
    by (simp add: session_after_def aexit_simps aenter_simps opened_simps)
  have 3: "w_heap (world_after E request w) = w_heap w"
    using h block_frame(1) [OF b]
    by (simp add: world_after_def world_part_simps aexit_simps aenter_simps opened_simps)
  show ?thesis
    using a 1 2 3 Inr by (simp add: c opened_simps)
qed

text \<open>The same at a concrete exchange, with every hypothesis discharged there.\<close>

theorem routing_disabled_keeps_base_context_witness:
  "\<not> wallet_handler_declared (get_value (w_heap (world_of plain_context)
        (base_context (env_of (Inr [''wallet-1'']) (Inr (message False)) (Inr (None, None)))))
        ''external_plugins'')
   \<and> fst (read_body json_request (world_of plain_context)) = Inr (Str ''{}'')
   \<and> map_option context_ref (session_after
        (env_of (Inr [''wallet-1'']) (Inr (message False)) (Inr (None, None)))
        json_request (world_of plain_context)) = Some 0
   \<and> take 4 (calls (env_of (Inr [''wallet-1'']) (Inr (message False)) (Inr (None, None)))
        json_request (world_of plain_context))
       = [ReadText, CreateSession, AEnter, Receive (Str ''{}'') 0]"
proof -
  let ?E = "env_of (Inr [''wallet-1'']) (Inr (message False)) (Inr (None, None))"
  let ?w = "world_of plain_context"
  have h1: "\<not> wallet_handler_declared (get_value (w_heap ?w (base_context ?E)) ''external_plugins'')"
    by (simp add: eval_defs)
  have h0: "fst (read_body json_request ?w) = Inr (Str ''{}'')"
    by (simp add: eval_defs)
  have b: "base_context ?E = 0"
    by (simp add: env_of_def)
  have rc: "read_call json_request = ReadText"
    by (simp add: eval_defs)
  note c = routing_disabled_keeps_base_context [OF h1, of json_request, THEN conjunct2, THEN conjunct2, rule_format, OF h0]
  from c have "map_option context_ref (session_after ?E json_request ?w) = Some (base_context ?E)"
    by (rule conjunct1 [OF conjunct2 [OF conjunct2]])
  then have 1: "map_option context_ref (session_after ?E json_request ?w) = Some 0"
    by (simp only: b)
  from c have "take 4 (calls ?E json_request ?w) =
      [read_call json_request, CreateSession, AEnter, Receive (Str ''{}'') (base_context ?E)]"
    by (rule conjunct2 [OF conjunct2 [OF conjunct2]])
  then have 2: "take 4 (calls ?E json_request ?w)
      = [ReadText, CreateSession, AEnter, Receive (Str ''{}'') 0]"
    by (simp only: b rc)
  from h1 h0 1 2 show ?thesis
    by (intro conjI)
qed

text \<open>
  Claim C8: with the wallet handler plugin declared, the tenant context is bound by
  substitution. No context object that existed before the run is changed, the base context
  among them. \<^verbatim>\<open>set_instance\<close> is called only with the first candidate that
  \<^verbatim>\<open>get_wallet_by_msg\<close> returned and only on the fresh copy that the session now holds,
  after \<^verbatim>\<open>get_wallet_by_msg\<close> and the copy; and when the resolution succeeds it is
  called, and the context bound to the session is what \<^verbatim>\<open>set_instance\<close> made of a copy
  of the base context.
\<close>

theorem tenant_bound_by_substitution:
  assumes "wallet_handler_declared (get_value (w_heap w (base_context E)) ''external_plugins'')"
    and "base_context E < w_next_ref w"
  shows "w_heap (world_after E request w) (base_context E) = w_heap w (base_context E)
       \<and> (\<forall>a < w_next_ref w. w_heap (world_after E request w) a = w_heap w a)
       \<and> (\<forall>wallet_id a. SetInstance wallet_id a \<in> set (calls E request w) \<longrightarrow>
             a = w_next_ref w \<and> a \<noteq> base_context E
             \<and> map_option context_ref (session_after E request w) = Some a
             \<and> (\<exists>body others. fst (read_body request w) = Inr body
                   \<and> get_wallet_by_msg E body = Inr (wallet_id # others)
                   \<and> take 6 (calls E request w) =
                       [read_call request, CreateSession, Inject (base_context E),
                        GetWalletByMsg body, ContextCopy (base_context E) a,
                        SetInstance wallet_id a]))
       \<and> (\<forall>body wallet_id others c'.
             fst (read_body request w) = Inr body
             \<and> inject_WalletHandler E (w_heap w (base_context E)) = None
             \<and> get_wallet_by_msg E body = Inr (wallet_id # others)
             \<and> set_instance E wallet_id (w_heap w (base_context E)) = Inr c' \<longrightarrow>
             SetInstance wallet_id (w_next_ref w) \<in> set (calls E request w)
             \<and> map_option context_ref (session_after E request w) = Some (w_next_ref w)
             \<and> bound_context E request body w = c')"
proof -
  note frame = heap_kept_below [of w E request]
  have si: "\<forall>wallet_id a. SetInstance wallet_id a \<in> set (calls E request w) \<longrightarrow>
             a = w_next_ref w \<and> a \<noteq> base_context E
             \<and> map_option context_ref (session_after E request w) = Some a
             \<and> (\<exists>body others. fst (read_body request w) = Inr body
                   \<and> get_wallet_by_msg E body = Inr (wallet_id # others)
                   \<and> take 6 (calls E request w) =
                       [read_call request, CreateSession, Inject (base_context E),
                        GetWalletByMsg body, ContextCopy (base_context E) a,
                        SetInstance wallet_id a])"
  proof (intro allI impI)
    fix wallet_id a
    assume m: "SetInstance wallet_id a \<in> set (calls E request w)"
    show "a = w_next_ref w \<and> a \<noteq> base_context E
             \<and> map_option context_ref (session_after E request w) = Some a
             \<and> (\<exists>body others. fst (read_body request w) = Inr body
                   \<and> get_wallet_by_msg E body = Inr (wallet_id # others)
                   \<and> take 6 (calls E request w) =
                       [read_call request, CreateSession, Inject (base_context E),
                        GetWalletByMsg body, ContextCopy (base_context E) a,
                        SetInstance wallet_id a])"
    proof (cases "fst (read_body request w)")
      case (Inl e)
      with m show ?thesis
        by (simp add: calls_read_failed read_call_other)
    next
      case (Inr body)
      obtain r s1 where a: "adapted E request body w = (r, s1)"
        by (cases "adapted E request body w")
      note a0 = a [unfolded adapted_def]
      note k = handler_keeps_adapted [OF Inr, of E]
      from calls_shape [OF Inr, of E] obtain ra rb where
        c: "calls E request w = read_call request # CreateSession # ra @ rb"
          "trace s1 = w_trace w @ read_call request # CreateSession # ra"
          "case fst (adapted E request body w) of
            Some e \<Rightarrow> rb = []
          | None \<Rightarrow>
              (\<exists>evs. rb = AEnter # Receive body
                                   (context_ref (sess (snd (adapted E request body w)))) # evs @ [AExit]
                     \<and> set evs \<subseteq> {WaitResponse, ClearResponse})"
        using a by auto
      have rb: "\<forall>wallet_id a. SetInstance wallet_id a \<notin> set rb"
        using c(3) by (cases "fst (adapted E request body w)") auto
      have t: "trace s1 = trace (opened E request w) @ ra"
        using c(2) by (simp add: opened_simps)
      from m rb have "SetInstance wallet_id a \<in> set ra"
        by (simp add: c(1) read_call_other)
      from adapt_set_instance [OF a0 t this] k a assms(2) Inr
      show ?thesis
        by (auto simp: opened_simps c(1))
    qed
  qed
  have bind: "\<forall>body wallet_id others c'.
             fst (read_body request w) = Inr body
             \<and> inject_WalletHandler E (w_heap w (base_context E)) = None
             \<and> get_wallet_by_msg E body = Inr (wallet_id # others)
             \<and> set_instance E wallet_id (w_heap w (base_context E)) = Inr c' \<longrightarrow>
             SetInstance wallet_id (w_next_ref w) \<in> set (calls E request w)
             \<and> map_option context_ref (session_after E request w) = Some (w_next_ref w)
             \<and> bound_context E request body w = c'"
  proof (intro allI impI, elim conjE)
    fix body wallet_id others c'
    assume r: "fst (read_body request w) = Inr body"
      and i: "inject_WalletHandler E (w_heap w (base_context E)) = None"
      and g: "get_wallet_by_msg E body = Inr (wallet_id # others)"
      and s: "set_instance E wallet_id (w_heap w (base_context E)) = Inr c'"
    have ad: "adapted E request body w =
       (None, (opened E request w)\<lparr>heap := (w_heap w)(w_next_ref w := c'),
                 next_ref := Suc (w_next_ref w),
                 trace := w_trace w @ [read_call request, CreateSession, Inject (base_context E),
                                     GetWalletByMsg body,
                                     ContextCopy (base_context E) (w_next_ref w),
                                     SetInstance wallet_id (w_next_ref w)],
                 sess := (sess (opened E request w))\<lparr>context_ref := w_next_ref w\<rparr>\<rparr>)"
      using adapt_resolved [where s = "opened E request w" and E = E and wallet_id = wallet_id
          and body = body and others = others]
        assms(1) i g s
      by (simp add: adapted_def opened_simps Let_def)
    from calls_shape [OF r, of E] obtain ra rb where
      c: "calls E request w = read_call request # CreateSession # ra @ rb"
        "trace (snd (adapted E request body w)) = w_trace w @ read_call request # CreateSession # ra"
      by blast
    have "SetInstance wallet_id (w_next_ref w) \<in> set ra"
      using c(2) by (auto simp: ad)
    then show "SetInstance wallet_id (w_next_ref w) \<in> set (calls E request w)
             \<and> map_option context_ref (session_after E request w) = Some (w_next_ref w)
             \<and> bound_context E request body w = c'"
      using handler_keeps_adapted [OF r, of E] by (simp add: c(1) bound_context_def ad)
  qed
  show ?thesis
    using frame assms(2) si bind by blast
qed

text \<open>The same at a concrete exchange, with every hypothesis discharged there.\<close>

theorem tenant_bound_by_substitution_witness:
  "wallet_handler_declared (get_value (w_heap (world_of custodial_context)
        (base_context (env_of (Inr [''wallet-1'', ''wallet-2'']) (Inr (message False))
           (Inr (None, None))))) ''external_plugins'')
   \<and> base_context (env_of (Inr [''wallet-1'', ''wallet-2'']) (Inr (message False))
           (Inr (None, None))) < w_next_ref (world_of custodial_context)
   \<and> fst (read_body json_request (world_of custodial_context)) = Inr (Str ''{}'')
   \<and> w_heap (world_after
        (env_of (Inr [''wallet-1'', ''wallet-2'']) (Inr (message False)) (Inr (None, None)))
        json_request (world_of custodial_context)) 0 = custodial_context
   \<and> SetInstance ''wallet-1'' 1 \<in> set (calls
        (env_of (Inr [''wallet-1'', ''wallet-2'']) (Inr (message False)) (Inr (None, None)))
        json_request (world_of custodial_context))
   \<and> map_option context_ref (session_after
        (env_of (Inr [''wallet-1'', ''wallet-2'']) (Inr (message False)) (Inr (None, None)))
        json_request (world_of custodial_context)) = Some 1
   \<and> bound_context
        (env_of (Inr [''wallet-1'', ''wallet-2'']) (Inr (message False)) (Inr (None, None)))
        json_request (Str ''{}'') (world_of custodial_context)
       = custodial_context\<lparr>wallet_instance := Some ''wallet-1''\<rparr>"
proof -
  let ?E = "env_of (Inr [''wallet-1'', ''wallet-2'']) (Inr (message False)) (Inr (None, None))"
  let ?w = "world_of custodial_context"
  have h1: "wallet_handler_declared (get_value (w_heap ?w (base_context ?E)) ''external_plugins'')"
    by (simp add: eval_defs)
  have h2: "base_context ?E < w_next_ref ?w"
    by (simp add: env_of_def world_of_def)
  have h0: "fst (read_body json_request ?w) = Inr (Str ''{}'')"
    by (simp add: eval_defs)
  have b: "base_context ?E = 0" "w_next_ref ?w = 1" "w_heap ?w 0 = custodial_context"
    by (simp_all add: env_of_def world_of_def)
  have i: "inject_WalletHandler ?E (w_heap ?w (base_context ?E)) = None"
    by (simp add: env_of_def)
  have g: "get_wallet_by_msg ?E (Str ''{}'') = Inr (''wallet-1'' # [''wallet-2''])"
    by (simp add: env_of_def)
  have s: "set_instance ?E ''wallet-1'' (w_heap ?w (base_context ?E))
             = Inr (custodial_context\<lparr>wallet_instance := Some ''wallet-1''\<rparr>)"
    by (simp add: env_of_def world_of_def)
  note c = tenant_bound_by_substitution [OF h1 h2, of json_request]
  from c have "w_heap (world_after ?E json_request ?w) (base_context ?E)
      = w_heap ?w (base_context ?E)"
    by (rule conjunct1)
  then have 1: "w_heap (world_after ?E json_request ?w) 0 = custodial_context"
    by (simp only: b)
  have "SetInstance ''wallet-1'' (w_next_ref ?w) \<in> set (calls ?E json_request ?w)
             \<and> map_option context_ref (session_after ?E json_request ?w) = Some (w_next_ref ?w)
             \<and> bound_context ?E json_request (Str ''{}'') ?w
                 = custodial_context\<lparr>wallet_instance := Some ''wallet-1''\<rparr>"
    using c [THEN conjunct2, THEN conjunct2, THEN conjunct2, rule_format,
        of "Str ''{}''" "''wallet-1''" "[''wallet-2'']"
           "custodial_context\<lparr>wallet_instance := Some ''wallet-1''\<rparr>"]
      h0 i g s
    by blast
  then have 2: "SetInstance ''wallet-1'' 1 \<in> set (calls ?E json_request ?w)
             \<and> map_option context_ref (session_after ?E json_request ?w) = Some 1
             \<and> bound_context ?E json_request (Str ''{}'') ?w
                 = custodial_context\<lparr>wallet_instance := Some ''wallet-1''\<rparr>"
    by (simp only: b)
  from h1 h2 h0 1 2 show ?thesis
    by blast
qed

text \<open>
  Claim C9: \<^verbatim>\<open>start\<close> raises \<^verbatim>\<open>InboundTransportSetupError\<close> exactly when
  \<^verbatim>\<open>self.site.start()\<close> is reached and raises \<^verbatim>\<open>OSError\<close>; the site is then not
  started; and the handler of an exchange never raises this error.
\<close>

theorem setup_error_iff_bind_failure:
  "(fst (start SE T) = Some (InboundTransportSetupError (host T) (port T)))
     = ((ELASTIC_APM_ENABLED SE = Some ''true'' \<longrightarrow> ElasticAPM SE (make_application T) = None)
        \<and> runner_setup SE (make_application T) = None
        \<and> site_start SE (host T) (port T) = Some OSError)
   \<and> (\<forall>h p. fst (start SE T) = Some (InboundTransportSetupError h p) \<longrightarrow>
         h = host T \<and> p = port T
         \<and> site (snd (start SE T)) =
             Some \<lparr>site_host = host T, site_port = port T, site_started = False\<rparr>)
   \<and> (\<forall>h p. fst (inbound_message_handler E request w) \<noteq> Inl (InboundTransportSetupError h p))"
proof -
  have 1: "(fst (start SE T) = Some (InboundTransportSetupError (host T) (port T)))
     = ((ELASTIC_APM_ENABLED SE = Some ''true'' \<longrightarrow> ElasticAPM SE (make_application T) = None)
        \<and> runner_setup SE (make_application T) = None
        \<and> site_start SE (host T) (port T) = Some OSError)"
    by (auto simp: start_def Let_def split: option.splits if_splits)
  have 2: "\<forall>h p. fst (start SE T) = Some (InboundTransportSetupError h p) \<longrightarrow>
         h = host T \<and> p = port T
         \<and> site (snd (start SE T)) =
             Some \<lparr>site_host = host T, site_port = port T, site_started = False\<rparr>"
    by (auto simp: start_def Let_def split: option.splits if_splits)
  have 3: "\<forall>h p. fst (inbound_message_handler E request w) \<noteq> Inl (InboundTransportSetupError h p)"
  proof (intro allI)
    fix h p
    show "fst (inbound_message_handler E request w) \<noteq> Inl (InboundTransportSetupError h p)"
    proof (cases "fst (read_body request w)")
      case (Inl e)
      then show ?thesis by (simp add: handler_not_read)
    next
      case (Inr body)
      obtain r s1 where a: "adapted E request body w = (r, s1)"
        by (cases "adapted E request body w")
      show ?thesis
      proof (cases r)
        case (Some e)
        with a show ?thesis by (simp add: handler_not_entered [OF Inr])
      next
        case None
        obtain rr s3 where b: "session_block E body (aenter s1) = (rr, s3)"
          by (cases "session_block E body (aenter s1)")
        have "rr \<noteq> Inl (InboundTransportSetupError h p)"
          using b by (auto simp: session_block_def Let_def
              split: sum.splits if_splits prod.splits option.splits payload.splits)
        moreover from a None have a': "adapted E request body w = (None, s1)" by simp
        ultimately show ?thesis
          using handler_entered [OF Inr a' b] by (auto split: sum.splits option.splits)
      qed
    qed
  qed
  show ?thesis using 1 2 3 by blast
qed

text \<open>The same at a concrete exchange, with every hypothesis discharged there.\<close>

theorem setup_error_iff_bind_failure_witness:
  "fst (start (start_env_of (Some OSError)) http_transport)
     = Some (InboundTransportSetupError ''0.0.0.0'' 8020)
   \<and> site (snd (start (start_env_of (Some OSError)) http_transport))
       = Some \<lparr>site_host = ''0.0.0.0'', site_port = 8020, site_started = False\<rparr>
   \<and> fst (start (start_env_of None) http_transport) = None
   \<and> fst (start (start_env_of (Some (OtherError ''cancelled''))) http_transport)
       = Some (Uncaught (OtherError ''cancelled''))"
proof -
  let ?SE = "start_env_of (Some OSError)"
  let ?E = "env_of (Inr []) (Inr (message False)) (Inr (None, None))"
  have h: "host http_transport = ''0.0.0.0''" "port http_transport = 8020"
    by (simp_all add: http_transport_def)
  have e: "(ELASTIC_APM_ENABLED ?SE = Some ''true'' \<longrightarrow>
             ElasticAPM ?SE (make_application http_transport) = None)
        \<and> runner_setup ?SE (make_application http_transport) = None
        \<and> site_start ?SE (host http_transport) (port http_transport) = Some OSError"
    by (simp add: start_env_of_def)
  note c = setup_error_iff_bind_failure [of ?SE http_transport ?E json_request "world_of plain_context"]
  from iffD2 [OF c [THEN conjunct1] e]
  have 0: "fst (start ?SE http_transport)
         = Some (InboundTransportSetupError (host http_transport) (port http_transport))" .
  then have 1: "fst (start ?SE http_transport) = Some (InboundTransportSetupError ''0.0.0.0'' 8020)"
    by (simp only: h)
  from c [THEN conjunct2, THEN conjunct1, rule_format, OF 0]
  have "site (snd (start ?SE http_transport)) =
             Some \<lparr>site_host = host http_transport, site_port = port http_transport,
                    site_started = False\<rparr>"
    by blast
  then have 2: "site (snd (start ?SE http_transport))
       = Some \<lparr>site_host = ''0.0.0.0'', site_port = 8020, site_started = False\<rparr>"
    by (simp only: h)
  have 3: "fst (start (start_env_of None) http_transport) = None"
    by (simp add: start_def start_env_of_def http_transport_def make_application_def)
  have 4: "fst (start (start_env_of (Some (OtherError ''cancelled''))) http_transport)
       = Some (Uncaught (OtherError ''cancelled''))"
    by (simp add: start_def start_env_of_def http_transport_def make_application_def)
  from 1 2 3 4 show ?thesis
    by (intro conjI)
qed

text \<open>
  Claim C10: with the wallet handler plugin declared, when \<^verbatim>\<open>get_wallet_by_msg\<close>
  returns an empty sequence, \<^verbatim>\<open>wallet_ids[0]\<close> raises \<^verbatim>\<open>IndexError\<close>, which leaves
  the handler uncaught before the session's block is entered: the session is neither
  entered nor left, and stays open.
\<close>

theorem no_candidate_index_error:
  assumes "wallet_handler_declared (get_value (w_heap w (base_context E)) ''external_plugins'')"
    and "inject_WalletHandler E (w_heap w (base_context E)) = None"
    and "fst (read_body request w) = Inr body"
    and "get_wallet_by_msg E body = Inr []"
  shows "fst (inbound_message_handler E request w) = Inl (Uncaught IndexError)
       \<and> calls E request w =
           [read_call request, CreateSession, Inject (base_context E), GetWalletByMsg body,
            ContextCopy (base_context E) (w_next_ref w)]
       \<and> AEnter \<notin> set (calls E request w)
       \<and> AExit \<notin> set (calls E request w)
       \<and> map_option closed (session_after E request w) = Some False"
proof -
  have "adapted E request body w =
     (Some IndexError,
      (opened E request w)\<lparr>heap := (w_heap w)(w_next_ref w := w_heap w (base_context E)),
        next_ref := Suc (w_next_ref w),
        trace := w_trace w @ [read_call request, CreateSession, Inject (base_context E),
                            GetWalletByMsg body,
                            ContextCopy (base_context E) (w_next_ref w)],
        sess := (sess (opened E request w))\<lparr>context_ref := w_next_ref w\<rparr>\<rparr>)"
    using adapt_no_candidate [where s = "opened E request w" and E = E and body = body]
      assms(1,2,4)
    by (simp add: adapted_def opened_simps)
  from handler_not_entered [OF assms(3) this] show ?thesis
    by (simp add: calls_def world_after_def session_after_def world_part_simps opened_simps
        read_call_other)
qed

text \<open>The same at a concrete exchange, with every hypothesis discharged there.\<close>

theorem no_candidate_index_error_witness:
  "wallet_handler_declared (get_value (w_heap (world_of custodial_context)
        (base_context (env_of (Inr []) (Inr (message False)) (Inr (None, None)))))
        ''external_plugins'')
   \<and> fst (read_body json_request (world_of custodial_context)) = Inr (Str ''{}'')
   \<and> get_wallet_by_msg (env_of (Inr []) (Inr (message False)) (Inr (None, None)))
        (Str ''{}'') = Inr []
   \<and> fst (inbound_message_handler (env_of (Inr []) (Inr (message False)) (Inr (None, None)))
        json_request (world_of custodial_context)) = Inl (Uncaught IndexError)
   \<and> AEnter \<notin> set (calls (env_of (Inr []) (Inr (message False)) (Inr (None, None)))
        json_request (world_of custodial_context))
   \<and> map_option closed (session_after
        (env_of (Inr []) (Inr (message False)) (Inr (None, None)))
        json_request (world_of custodial_context)) = Some False"
proof -
  let ?E = "env_of (Inr []) (Inr (message False)) (Inr (None, None))"
  let ?w = "world_of custodial_context"
  have h1: "wallet_handler_declared (get_value (w_heap ?w (base_context ?E)) ''external_plugins'')"
    by (simp add: eval_defs)
  have h2: "inject_WalletHandler ?E (w_heap ?w (base_context ?E)) = None"
    by (simp add: env_of_def)
  have h0: "fst (read_body json_request ?w) = Inr (Str ''{}'')"
    by (simp add: eval_defs)
  have h3: "get_wallet_by_msg ?E (Str ''{}'') = Inr []"
    by (simp add: env_of_def)
  from no_candidate_index_error [OF h1 h2 h0 h3] h1 h0 h3 show ?thesis
    by blast
qed

end
